theory Spec2Isabelle
  imports Main "HOL-Library.AList"
begin

section \<open>Python values, dictionaries and strings\<close>

text \<open>
  Every exception the code handles is caught with \<^verbatim>\<open>except Exception\<close>, so one
  constructor carrying the message is enough. A call that may raise returns
  \<open>exn + 'a\<close>, with \<open>Inl\<close> for the raise. Calls to the logger do not change any
  result and are left out.
\<close>

datatype exn = PyException string

text \<open>
  The values stored in metadata and result dictionaries. A dictionary is an association
  list in insertion order, as Python's \<^verbatim>\<open>dict\<close> keeps it.
\<close>

datatype pyval = PStr string | PInt int | PList "pyval list" | PDict "(string \<times> pyval) list"

type_synonym dict = "(string \<times> pyval) list"

definition dict_get :: "dict \<Rightarrow> string \<Rightarrow> pyval \<Rightarrow> pyval" where
  "dict_get d k dflt = (case map_of d k of None \<Rightarrow> dflt | Some v \<Rightarrow> v)"

definition dict_set :: "dict \<Rightarrow> string \<Rightarrow> pyval \<Rightarrow> dict" where
  "dict_set d k v = AList.update k v d"

definition dict_keys :: "dict \<Rightarrow> string list" where
  "dict_keys d = map fst d"

text \<open>
  \<^verbatim>\<open>str.isspace\<close> on the code points below 256, \<^verbatim>\<open>str.strip()\<close>, and
  \<^verbatim>\<open>str.lower()\<close> / \<^verbatim>\<open>str.upper()\<close> on ASCII letters.
\<close>

definition isspace :: "char \<Rightarrow> bool" where
  "isspace c = ((of_char c :: nat) \<in> {9, 10, 11, 12, 13, 28, 29, 30, 31, 32, 133, 160})"

definition strip :: "string \<Rightarrow> string" where
  "strip s = rev (dropWhile isspace (rev (dropWhile isspace s)))"

definition lower_char :: "char \<Rightarrow> char" where
  "lower_char c = (let n = (of_char c :: nat) in if 65 \<le> n \<and> n \<le> 90 then char_of (n + 32) else c)"

definition upper_char :: "char \<Rightarrow> char" where
  "upper_char c = (let n = (of_char c :: nat) in if 97 \<le> n \<and> n \<le> 122 then char_of (n - 32) else c)"

definition lower :: "string \<Rightarrow> string" where
  "lower s = map lower_char s"

definition upper :: "string \<Rightarrow> string" where
  "upper s = map upper_char s"

text \<open>
  \<^verbatim>\<open>sep.join(xs)\<close>, \<^verbatim>\<open>text.startswith(s)\<close>, \<^verbatim>\<open>s in text\<close> for strings, and
  \<^verbatim>\<open>str(e)\<close> of an exception.
\<close>

fun join_str :: "string \<Rightarrow> string list \<Rightarrow> string" where
  "join_str sep [] = []"
| "join_str sep [a] = a"
| "join_str sep (a # b # rest) = a @ sep @ join_str sep (b # rest)"

fun starts_with :: "string \<Rightarrow> string \<Rightarrow> bool" where
  "starts_with text [] = True"
| "starts_with [] (c # cs) = False"
| "starts_with (t # ts) (c # cs) = (t = c \<and> starts_with ts cs)"

fun occurs_in :: "string \<Rightarrow> string \<Rightarrow> bool" where
  "occurs_in s [] = starts_with [] s"
| "occurs_in s (t # ts) = (starts_with (t # ts) s \<or> occurs_in s ts)"

fun exn_str :: "exn \<Rightarrow> string" where
  "exn_str (PyException msg) = msg"

section \<open>Documents (langchain.schema.Document)\<close>

record document =
  page_content :: string
  metadata :: dict

section \<open>document\_processor.py\<close>

text \<open>
  A \<^verbatim>\<open>pathlib.Path\<close> is the list of its components. \<^verbatim>\<open>p / name\<close> appends
  a component, \<^verbatim>\<open>p.parent\<close> removes the last one, \<^verbatim>\<open>p.name\<close> is the last one
  and \<^verbatim>\<open>p.suffix\<close> is the part of the name from its last dot, when that dot is
  neither the first nor the last character of the name.
\<close>

type_synonym path = "string list"

definition path_join :: "path \<Rightarrow> string \<Rightarrow> path" where
  "path_join p name = p @ [name]"

definition parent :: "path \<Rightarrow> path" where
  "parent p = butlast p"

definition path_name :: "path \<Rightarrow> string" where
  "path_name p = (if p = [] then [] else last p)"

definition path_suffix :: "path \<Rightarrow> string" where
  "path_suffix p =
     (let name = path_name p;
          ext = rev (takeWhile (\<lambda>c. c \<noteq> CHR ''.'') (rev name))
      in if length ext < length name \<and> 0 < length name - length ext - 1 \<and> ext \<noteq> []
         then CHR ''.'' # ext else [])"

fun path_str :: "path \<Rightarrow> string" where
  "path_str [] = ''.''"
| "path_str [a] = a"
| "path_str (a # b # rest) = a @ ''/'' @ path_str (b # rest)"

text \<open>
  What the loader asks of the file system and of PyPDF2. \<^verbatim>\<open>Path.exists\<close> and
  \<^verbatim>\<open>Path.is_file\<close> return a boolean or raise: they pass on every \<^verbatim>\<open>OSError\<close>
  of the underlying \<^verbatim>\<open>stat\<close> other than the few that mean the file is not there.
  \<^verbatim>\<open>Path.rglob('*')\<close> yields paths one after the other and may raise after the last
  one it yields. \<^verbatim>\<open>open(p, 'r', encoding='utf-8').read()\<close> returns the text or
  raises, and \<^verbatim>\<open>PdfReader(p).pages\<close> gives, unless it raises, the outcome of
  \<^verbatim>\<open>extract_text\<close> on each page.
\<close>

record filesystem =
  fs_exists :: "path \<Rightarrow> exn + bool"
  fs_rglob :: "path \<Rightarrow> path list \<times> exn option"
  fs_is_file :: "path \<Rightarrow> exn + bool"
  fs_read :: "path \<Rightarrow> exn + string"
  fs_pdf_pages :: "path \<Rightarrow> exn + (exn + string) list"

text \<open>
  \<^verbatim>\<open>DocumentProcessor\<close>: the two sizes and the text splitter built in
  \<^verbatim>\<open>__init__\<close>. The splitter is an object of the langchain library; the processor
  only calls its \<^verbatim>\<open>split_text\<close>.
\<close>

record DocumentProcessor =
  chunk_size :: int
  chunk_overlap :: int
  split_text :: "string \<Rightarrow> string list"

text \<open>\<^verbatim>\<open>load_pdf\<close>: the page loop appends each page's text and a newline.\<close>

fun extract_pages :: "(exn + string) list \<Rightarrow> string \<Rightarrow> exn + string" where
  "extract_pages [] text = Inr text"
| "extract_pages (page # pages) text =
     (case page of
        Inl e \<Rightarrow> Inl e
      | Inr t \<Rightarrow> extract_pages pages (text @ t @ [CHR 0x0A]))"

definition load_pdf :: "filesystem \<Rightarrow> path \<Rightarrow> exn + string" where
  "load_pdf fs file_path =
     (case fs_pdf_pages fs file_path of
        Inl e \<Rightarrow> Inl e
      | Inr pages \<Rightarrow>
          (case extract_pages pages [] of
             Inl e \<Rightarrow> Inl e
           | Inr text \<Rightarrow> Inr (strip text)))"

definition load_text_file :: "filesystem \<Rightarrow> path \<Rightarrow> exn + string" where
  "load_text_file fs file_path = fs_read fs file_path"

definition supported_extensions :: "string list" where
  "supported_extensions = [''.pdf'', ''.txt'', ''.md'']"

text \<open>
  \<^verbatim>\<open>load_documents_from_directory\<close>. \<open>load_step\<close> is the body of the loop
  \<^verbatim>\<open>for file_path in directory_path.rglob('*')\<close> on the list \<^verbatim>\<open>documents\<close>. The
  test \<^verbatim>\<open>file_path.is_file()\<close> stands before the \<^verbatim>\<open>try\<close>, so an exception of it
  leaves the function; the \<^verbatim>\<open>except Exception\<close> clause around the load only logs.
  The test \<^verbatim>\<open>directory_path.exists()\<close> and the enumeration are outside any
  \<^verbatim>\<open>try\<close> as well.
\<close>

definition load_step :: "filesystem \<Rightarrow> path \<Rightarrow> document list \<Rightarrow> exn + document list" where
  "load_step fs file_path documents =
     (case fs_is_file fs file_path of
        Inl e \<Rightarrow> Inl e
      | Inr is_file \<Rightarrow>
          if is_file \<and> lower (path_suffix file_path) \<in> set supported_extensions then
            (case (if lower (path_suffix file_path) = ''.pdf''
                   then load_pdf fs file_path
                   else load_text_file fs file_path) of
               Inl e \<Rightarrow> Inr documents
             | Inr content \<Rightarrow>
                 if strip content \<noteq> [] then
                   Inr (documents @
                     [\<lparr>page_content = content,
                       metadata =
                         [(''source'', PStr (path_str file_path)),
                          (''filename'', PStr (path_name file_path)),
                          (''type'', PStr (upper (drop 1 (path_suffix file_path))))]\<rparr>])
                 else Inr documents)
          else Inr documents)"

fun load_loop :: "filesystem \<Rightarrow> path list \<Rightarrow> document list \<Rightarrow> exn + document list" where
  "load_loop fs [] documents = Inr documents"
| "load_loop fs (file_path # rest) documents =
     (case load_step fs file_path documents of
        Inl e \<Rightarrow> Inl e
      | Inr documents' \<Rightarrow> load_loop fs rest documents')"

definition load_documents_from_directory :: "filesystem \<Rightarrow> path \<Rightarrow> exn + document list" where
  "load_documents_from_directory fs directory_path =
     (case fs_exists fs directory_path of
        Inl e \<Rightarrow> Inl e
      | Inr found \<Rightarrow>
          if \<not> found then Inr []
          else
            (case fs_rglob fs directory_path of
               (paths, raised) \<Rightarrow>
                 (case load_loop fs paths [] of
                    Inl e \<Rightarrow> Inl e
                  | Inr documents \<Rightarrow>
                      (case raised of Some e \<Rightarrow> Inl e | None \<Rightarrow> Inr documents))))"

text \<open>
  \<^verbatim>\<open>chunk_documents\<close>: the inner loop over \<^verbatim>\<open>enumerate(chunks)\<close> and the outer
  loop over the documents, both appending to \<^verbatim>\<open>chunked_docs\<close>.
\<close>

fun chunk_loop :: "dict \<Rightarrow> int \<Rightarrow> int \<Rightarrow> string list \<Rightarrow> document list \<Rightarrow> document list" where
  "chunk_loop md n_chunks i [] chunked_docs = chunked_docs"
| "chunk_loop md n_chunks i (chunk # chunks) chunked_docs =
     chunk_loop md n_chunks (i + 1) chunks
       (chunked_docs @
          [\<lparr>page_content = chunk,
            metadata = dict_set (dict_set md ''chunk_id'' (PInt i)) ''total_chunks'' (PInt n_chunks)\<rparr>])"

fun chunk_docs_loop :: "DocumentProcessor \<Rightarrow> document list \<Rightarrow> document list \<Rightarrow> document list" where
  "chunk_docs_loop p [] chunked_docs = chunked_docs"
| "chunk_docs_loop p (doc # docs) chunked_docs =
     (let chunks = split_text p (page_content doc) in
      chunk_docs_loop p docs
        (chunk_loop (metadata doc) (int (length chunks)) 0 chunks chunked_docs))"

definition chunk_documents :: "DocumentProcessor \<Rightarrow> document list \<Rightarrow> document list" where
  "chunk_documents p documents = chunk_docs_loop p documents []"

definition process_directory :: "DocumentProcessor \<Rightarrow> filesystem \<Rightarrow> path \<Rightarrow> exn + document list" where
  "process_directory p fs directory_path =
     (case load_documents_from_directory fs directory_path of
        Inl e \<Rightarrow> Inl e
      | Inr documents \<Rightarrow>
          if documents = [] then Inr [] else Inr (chunk_documents p documents))"


text \<open>
  Modelled from the spec: the text splitter. The source builds it in
  \<^verbatim>\<open>DocumentProcessor.__init__\<close> from the langchain library
  (\<^verbatim>\<open>RecursiveCharacterTextSplitter\<close>), whose code is not part of the repository.
  Section 4.1 of the specification describes it: text is packed greedily into segments
  of at most \<open>chunk_size\<close> characters that overlap by at most \<open>chunk_overlap\<close>,
  splitting prefers natural boundaries (paragraph, then line, then white space, then a
  cut between characters), and an empty or whitespace-only text gives zero chunks.
  The definitions follow the algorithm of the library with the settings the source
  leaves at their defaults, which is how the program realises that description: the
  separators are the paragraph break, the line break, the space and the empty
  separator, a separator stays at the start of the piece that follows it, and every
  chunk merged from pieces is trimmed of leading and trailing white space.
\<close>

text \<open>
  Modelled from the spec: the splitter's use of \<^verbatim>\<open>re.split\<close> on a literal separator: the pieces between the occurrences of the
  separator, read from left to right; \<open>piece\<close> is the piece being read.
\<close>

function split_on :: "string \<Rightarrow> string \<Rightarrow> string \<Rightarrow> string list" where
  "split_on sep text piece =
     (if text = [] then [piece]
      else if sep \<noteq> [] \<and> starts_with text sep
           then piece # split_on sep (drop (length sep) text) []
           else split_on sep (tl text) (piece @ [hd text]))"
  by pat_completeness auto
termination
  by (relation "measure (\<lambda>(sep, text, piece). length text)") auto

declare split_on.simps [simp del]

text \<open>
  Modelled from the spec: \<^verbatim>\<open>_split_text_with_regex\<close> of the splitter with the separator kept: the first piece, then each
  later piece with the separator in front, without the empty ones. With the empty
  separator the text is split into its characters.
\<close>

definition split_text_with_regex :: "string \<Rightarrow> string \<Rightarrow> string list" where
  "split_text_with_regex text separator =
     filter (\<lambda>s. s \<noteq> [])
       (if separator \<noteq> [] then
          (case split_on separator text [] of
             [] \<Rightarrow> []
           | first # others \<Rightarrow> first # map (\<lambda>t. separator @ t) others)
        else map (\<lambda>c. [c]) text)"

text \<open>
  Modelled from the spec: \<^verbatim>\<open>_join_docs\<close> of the splitter, the pieces joined and trimmed;
  nothing when that is empty.
\<close>

definition join_docs :: "string list \<Rightarrow> string \<Rightarrow> string option" where
  "join_docs docs separator =
     (let text = strip (join_str separator docs) in if text = [] then None else Some text)"

text \<open>
  Modelled from the spec: \<^verbatim>\<open>_merge_splits\<close> of the splitter. \<open>pop_loop\<close> is its \<^verbatim>\<open>while\<close> loop, which drops pieces from
  the front of \<^verbatim>\<open>current_doc\<close> until what is left fits the overlap; \<open>tot\<close> is the
  variable \<^verbatim>\<open>total\<close>, the length of what \<^verbatim>\<open>current_doc\<close> holds. \<open>merge_step\<close> is
  the body of the \<^verbatim>\<open>for\<close> loop on the triple of \<^verbatim>\<open>docs\<close>, \<^verbatim>\<open>current_doc\<close> and
  \<^verbatim>\<open>total\<close>.
\<close>

fun pop_loop :: "int \<Rightarrow> int \<Rightarrow> int \<Rightarrow> int \<Rightarrow> string list \<Rightarrow> int \<Rightarrow> string list \<times> int" where
  "pop_loop csize coverlap separator_len len [] tot = ([], tot)"
| "pop_loop csize coverlap separator_len len (first # rest) tot =
     (if tot > coverlap \<or> (tot + len + separator_len > csize \<and> tot > 0)
      then pop_loop csize coverlap separator_len len rest
             (tot - (int (length first) + (if rest \<noteq> [] then separator_len else 0)))
      else (first # rest, tot))"

definition merge_step ::
  "int \<Rightarrow> int \<Rightarrow> string \<Rightarrow> string \<Rightarrow> string list \<times> string list \<times> int
     \<Rightarrow> string list \<times> string list \<times> int" where
  "merge_step csize coverlap separator d state =
     (case state of
        (docs, current_doc, tot) \<Rightarrow>
          (let len = int (length d);
               separator_len = int (length separator)
           in if tot + len + (if current_doc \<noteq> [] then separator_len else 0) > csize
              then
                (if current_doc \<noteq> [] then
                   (case pop_loop csize coverlap separator_len len current_doc tot of
                      (current_doc', tot') \<Rightarrow>
                        ((case join_docs current_doc separator of
                            None \<Rightarrow> docs
                          | Some doc \<Rightarrow> docs @ [doc]),
                         current_doc' @ [d],
                         tot' + len + (if current_doc' \<noteq> [] then separator_len else 0)))
                 else (docs, current_doc @ [d], tot + len))
              else
                (docs, current_doc @ [d],
                 tot + len + (if current_doc \<noteq> [] then separator_len else 0))))"

fun merge_loop ::
  "int \<Rightarrow> int \<Rightarrow> string \<Rightarrow> string list \<Rightarrow> string list \<times> string list \<times> int \<Rightarrow> string list" where
  "merge_loop csize coverlap separator [] state =
     (case state of
        (docs, current_doc, tot) \<Rightarrow>
          (case join_docs current_doc separator of None \<Rightarrow> docs | Some doc \<Rightarrow> docs @ [doc]))"
| "merge_loop csize coverlap separator (d # splits) state =
     merge_loop csize coverlap separator splits (merge_step csize coverlap separator d state)"

definition merge_splits :: "int \<Rightarrow> int \<Rightarrow> string list \<Rightarrow> string \<Rightarrow> string list" where
  "merge_splits csize coverlap splits separator =
     merge_loop csize coverlap separator splits ([], [], 0)"

text \<open>
  Modelled from the spec: \<^verbatim>\<open>_split_text\<close> of the splitter, called by \<^verbatim>\<open>split_text\<close>
  with the default separators. \<open>choose_separator\<close> is its first loop: the first separator that
  is empty or occurs in the text, with the separators after it, and the last separator
  when none does. \<open>split_loop\<close> is its second loop over the pieces: pieces shorter
  than \<open>chunk_size\<close> are collected and merged, a longer piece is split further with
  the remaining separators, or kept whole when none remain.
\<close>

fun choose_separator :: "string \<Rightarrow> string list \<Rightarrow> string \<Rightarrow> string \<times> string list" where
  "choose_separator last_separator [] text = (last_separator, [])"
| "choose_separator last_separator (s # rest) text =
     (if s = [] then (s, [])
      else if occurs_in s text then (s, rest)
      else choose_separator last_separator rest text)"

fun split_loop ::
  "int \<Rightarrow> int \<Rightarrow> (string \<Rightarrow> string list) option \<Rightarrow> string list \<Rightarrow> string list \<Rightarrow> string list
     \<Rightarrow> string list" where
  "split_loop csize coverlap deeper [] good_splits final_chunks =
     (if good_splits \<noteq> [] then final_chunks @ merge_splits csize coverlap good_splits []
      else final_chunks)"
| "split_loop csize coverlap deeper (s # splits) good_splits final_chunks =
     (if int (length s) < csize
      then split_loop csize coverlap deeper splits (good_splits @ [s]) final_chunks
      else
        (let final_chunks' =
               (if good_splits \<noteq> [] then final_chunks @ merge_splits csize coverlap good_splits []
                else final_chunks)
         in split_loop csize coverlap deeper splits []
              (case deeper of
                 None \<Rightarrow> final_chunks' @ [s]
               | Some split_deeper \<Rightarrow> final_chunks' @ split_deeper s)))"

lemma choose_separator_shorter:
  "choose_separator d seps text = (s, new) \<Longrightarrow> new \<noteq> [] \<Longrightarrow> length new < length seps"
  by (induction seps) (auto split: if_splits)

function split_text_rec :: "int \<Rightarrow> int \<Rightarrow> string list \<Rightarrow> string \<Rightarrow> string list" where
  "split_text_rec csize coverlap separators text =
     (case choose_separator (last separators) separators text of
        (separator, new_separators) \<Rightarrow>
          split_loop csize coverlap
            (if new_separators = [] then None
             else Some (\<lambda>s. split_text_rec csize coverlap new_separators s))
            (split_text_with_regex text separator) [] [])"
  by pat_completeness auto
termination
  apply (relation "measure (\<lambda>(csize, coverlap, separators, text). length separators)")
   apply simp
  apply (auto dest: choose_separator_shorter [OF sym])
  done

declare split_text_rec.simps [simp del]

definition default_separators :: "string list" where
  "default_separators = [[CHR 0x0A, CHR 0x0A], [CHR 0x0A], '' '', '''']"

text \<open>
  Modelled from the spec: \<^verbatim>\<open>DocumentProcessor.__init__\<close>. It stores the two sizes and
  builds the splitter; the checks are those of the splitter's constructor, which is
  code of the library. The configuration asks for \<open>chunk_size > 0\<close> and
  \<open>0 \<le> chunk_overlap\<close>, and an overlap above the chunk size is refused. The
  specification also calls an overlap equal to the chunk size a configuration error;
  the constructor accepts it.
\<close>

definition DocumentProcessor_init :: "int \<Rightarrow> int \<Rightarrow> exn + DocumentProcessor" where
  "DocumentProcessor_init csize coverlap =
     (if csize \<le> 0 \<or> coverlap < 0 \<or> coverlap > csize then Inl (PyException ''ValueError'')
      else Inr \<lparr>chunk_size = csize, chunk_overlap = coverlap,
                split_text = split_text_rec csize coverlap default_separators\<rparr>)"

section \<open>The vector store (vector\_store.py)\<close>

text \<open>
  \<^verbatim>\<open>try: body except Exception as e: handler\<close>.
\<close>

definition try_except :: "exn + 'a \<Rightarrow> (exn \<Rightarrow> exn + 'a) \<Rightarrow> exn + 'a" where
  "try_except body handler = (case body of Inl e \<Rightarrow> handler e | Inr v \<Rightarrow> Inr v)"

text \<open>
  The calls into the FAISS wrapper of langchain, over an index object of type \<open>'f\<close>:
  \<^verbatim>\<open>FAISS.from_documents\<close>, \<^verbatim>\<open>add_documents\<close> (which changes the index in place and
  may raise afterwards), \<^verbatim>\<open>similarity_search\<close> and
  \<^verbatim>\<open>len(index.docstore._dict)\<close>.
\<close>

record 'f faiss =
  from_documents :: "document list \<Rightarrow> exn + 'f"
  faiss_add_documents :: "'f \<Rightarrow> document list \<Rightarrow> 'f \<times> exn option"
  faiss_similarity_search :: "'f \<Rightarrow> string \<Rightarrow> int \<Rightarrow> exn + document list"
  docstore_len :: "'f \<Rightarrow> nat"

record 'f VectorStore =
  embedding_model :: string
  vector_store :: "'f option"

definition create_index :: "'f faiss \<Rightarrow> 'f VectorStore \<Rightarrow> document list \<Rightarrow> exn + 'f VectorStore" where
  "create_index lib self documents =
     (if documents = [] then Inr self
      else (case from_documents lib documents of
              Inl e \<Rightarrow> Inl e
            | Inr f \<Rightarrow> Inr (self\<lparr>vector_store := Some f\<rparr>)))"

text \<open>
  \<^verbatim>\<open>add_documents\<close> returns the store as it is after the call together with the
  exception, if one was raised.
\<close>

definition add_documents :: "'f faiss \<Rightarrow> 'f VectorStore \<Rightarrow> document list \<Rightarrow> 'f VectorStore \<times> exn option" where
  "add_documents lib self documents =
     (if documents = [] then (self, None)
      else (case vector_store self of
              None \<Rightarrow>
                (case create_index lib self documents of
                   Inl e \<Rightarrow> (self, Some e)
                 | Inr self' \<Rightarrow> (self', None))
            | Some f \<Rightarrow>
                (case faiss_add_documents lib f documents of
                   (f', r) \<Rightarrow> (self\<lparr>vector_store := Some f'\<rparr>, r))))"

definition similarity_search :: "'f faiss \<Rightarrow> 'f VectorStore \<Rightarrow> string \<Rightarrow> int \<Rightarrow> exn + document list" where
  "similarity_search lib self query k =
     (case vector_store self of
        None \<Rightarrow> Inr []
      | Some f \<Rightarrow> try_except (faiss_similarity_search lib f query k) (\<lambda>e. Inr []))"

definition get_stats :: "'f faiss \<Rightarrow> 'f VectorStore \<Rightarrow> dict" where
  "get_stats lib self =
     (case vector_store self of
        None \<Rightarrow> [(''status'', PStr ''not_initialized''), (''document_count'', PInt 0)]
      | Some f \<Rightarrow>
          [(''status'', PStr ''initialized''),
           (''document_count'', PInt (int (docstore_len lib f))),
           (''embedding_model'', PStr (embedding_model self))])"

subsection \<open>Persistence\<close>

text \<open>
  The operations \<^verbatim>\<open>save_index\<close> and \<^verbatim>\<open>load_index\<close> perform on the storage:
  \<^verbatim>\<open>mkdir(parents=True, exist_ok=True)\<close>, \<^verbatim>\<open>FAISS.save_local\<close>,
  \<^verbatim>\<open>open(p, 'wb')\<close>, which creates the file or truncates it, and \<^verbatim>\<open>pickle.dump\<close>
  into the open file. A rename is an operation of the storage too; the code never
  issues one.
\<close>

datatype 'f io_op =
    Mkdir path
  | SaveLocal 'f path
  | OpenWrite path
  | PickleDump pyval path
  | Rename path path

text \<open>
  What the storage answers: whether a write operation raises, \<^verbatim>\<open>Path.exists\<close>
  (a boolean, or the \<^verbatim>\<open>OSError\<close> it passes on), \<^verbatim>\<open>open(p, 'rb')\<close> followed by
  \<^verbatim>\<open>pickle.load\<close>, and \<^verbatim>\<open>FAISS.load_local\<close>.
\<close>

record 'f storage =
  io_fails :: "'f io_op \<Rightarrow> exn option"
  io_exists :: "path \<Rightarrow> exn + bool"
  io_read_pickle :: "path \<Rightarrow> exn + pyval"
  io_load_local :: "path \<Rightarrow> exn + 'f"

text \<open>
  The writes of \<^verbatim>\<open>save_index\<close> in program order (lines 134 to 147), and the
  function itself: the first operation that raises ends it, and the exception is
  raised again after logging.
\<close>

definition save_index_ops :: "'f faiss \<Rightarrow> 'f VectorStore \<Rightarrow> path \<Rightarrow> 'f io_op list" where
  "save_index_ops lib self file_path =
     (case vector_store self of
        None \<Rightarrow> []
      | Some f \<Rightarrow>
          [Mkdir (parent file_path),
           SaveLocal f (path_join file_path ''faiss_index''),
           OpenWrite (path_join file_path ''metadata.pkl''),
           PickleDump
             (PDict [(''embedding_model'', PStr (embedding_model self)),
                     (''document_count'', PInt (int (docstore_len lib f)))])
             (path_join file_path ''metadata.pkl'')])"

fun run_ops :: "('f io_op \<Rightarrow> exn option) \<Rightarrow> 'f io_op list \<Rightarrow> exn + unit" where
  "run_ops fails [] = Inr ()"
| "run_ops fails (x # xs) =
     (case fails x of Some e \<Rightarrow> Inl e | None \<Rightarrow> run_ops fails xs)"

definition save_index :: "'f faiss \<Rightarrow> 'f storage \<Rightarrow> 'f VectorStore \<Rightarrow> path \<Rightarrow> exn + unit" where
  "save_index lib io self file_path = run_ops (io_fails io) (save_index_ops lib self file_path)"

text \<open>
  \<^verbatim>\<open>metadata.get(key)\<close> on the unpickled object: only a dictionary has the method.
\<close>

definition py_get :: "pyval \<Rightarrow> string \<Rightarrow> exn + pyval option" where
  "py_get v k =
     (case v of
        PDict d \<Rightarrow> Inr (map_of d k)
      | _ \<Rightarrow> Inl (PyException ''AttributeError''))"

text \<open>
  \<^verbatim>\<open>load_index\<close> returns its boolean and the store as it is on return. The two
  \<^verbatim>\<open>exists()\<close> tests stand before the \<^verbatim>\<open>try\<close>, the second evaluated only when the
  first found the index, so an exception of either leaves the function. The handler of
  the \<^verbatim>\<open>try\<close> block returns \<^verbatim>\<open>False\<close> with the store as it is when the exception
  arrives.
\<close>

definition load_index :: "'f storage \<Rightarrow> 'f VectorStore \<Rightarrow> path \<Rightarrow> exn + (bool \<times> 'f VectorStore)" where
  "load_index io self file_path =
     (let faiss_path = path_join file_path ''faiss_index'';
          metadata_path = path_join file_path ''metadata.pkl''
      in case io_exists io faiss_path of
           Inl e \<Rightarrow> Inl e
         | Inr faiss_found \<Rightarrow>
             if \<not> faiss_found then Inr (False, self)
             else
               (case io_exists io metadata_path of
                  Inl e \<Rightarrow> Inl e
                | Inr metadata_found \<Rightarrow>
                    if \<not> metadata_found then Inr (False, self)
                    else
                      (case io_read_pickle io metadata_path of
                         Inl e \<Rightarrow> Inr (False, self)
                       | Inr md \<Rightarrow>
                           (case py_get md ''embedding_model'' of
                              Inl e \<Rightarrow> Inr (False, self)
                            | Inr model \<Rightarrow>
                                (case io_load_local io faiss_path of
                                   Inl e \<Rightarrow> Inr (False, self)
                                 | Inr f \<Rightarrow>
                                     (case py_get md ''document_count'' of
                                        Inl e \<Rightarrow> Inr (False, self\<lparr>vector_store := Some f\<rparr>)
                                      | Inr n \<Rightarrow> Inr (True, self\<lparr>vector_store := Some f\<rparr>)))))))"

subsection \<open>A storage with contents\<close>

text \<open>
  To follow what the writes of \<^verbatim>\<open>save_index\<close> leave behind when the process stops
  between two of them, the storage gets contents: at a path there is a directory, the
  directory written by \<^verbatim>\<open>save_local\<close>, a pickle file, or a file that was opened for
  writing and holds nothing yet.
\<close>

datatype 'f node = Directory | IndexDir 'f | PickleFile pyval | EmptyFile

type_synonym 'f disk = "path \<Rightarrow> 'f node option"

fun apply_op :: "'f io_op \<Rightarrow> 'f disk \<Rightarrow> 'f disk" where
  "apply_op (Mkdir p) d = (if d p = None then d(p \<mapsto> Directory) else d)"
| "apply_op (SaveLocal f p) d = d(p \<mapsto> IndexDir f)"
| "apply_op (OpenWrite p) d = d(p \<mapsto> EmptyFile)"
| "apply_op (PickleDump v p) d = d(p \<mapsto> PickleFile v)"
| "apply_op (Rename a b) d = d(a := None, b := d a)"

fun apply_ops :: "'f io_op list \<Rightarrow> 'f disk \<Rightarrow> 'f disk" where
  "apply_ops [] d = d"
| "apply_ops (x # xs) d = apply_ops xs (apply_op x d)"

text \<open>The storage interface of a disk on which no operation fails for other reasons.\<close>

definition disk_storage :: "'f disk \<Rightarrow> 'f storage" where
  "disk_storage d =
     \<lparr>io_fails = (\<lambda>x. None),
      io_exists = (\<lambda>p. Inr (d p \<noteq> None)),
      io_read_pickle = (\<lambda>p. case d p of
                                Some (PickleFile v) \<Rightarrow> Inr v
                              | _ \<Rightarrow> Inl (PyException ''cannot unpickle'')),
      io_load_local = (\<lambda>p. case d p of
                               Some (IndexDir f) \<Rightarrow> Inr f
                             | _ \<Rightarrow> Inl (PyException ''cannot load index''))\<rparr>"

fun is_rename :: "'f io_op \<Rightarrow> bool" where
  "is_rename (Rename a b) = True"
| "is_rename _ = False"

section \<open>The orchestrator (rag\_system.py)\<close>

record Config =
  KNOWLEDGE_BASE_PATH :: path
  VECTOR_DB_PATH :: path
  CHUNK_SIZE :: int
  CHUNK_OVERLAP :: int
  EMBEDDING_MODEL :: string

text \<open>
  Everything outside the process: the file system the loader reads, the FAISS wrapper,
  the index storage, the constructor of \<^verbatim>\<open>DocumentProcessor\<close> (building the
  splitter may raise), and Python's \<^verbatim>\<open>str()\<close> used by the f-strings.
\<close>

record 'f env =
  env_fs :: filesystem
  env_faiss :: "'f faiss"
  env_storage :: "'f storage"
  env_new_processor :: "int \<Rightarrow> int \<Rightarrow> exn + DocumentProcessor"
  env_str :: "pyval \<Rightarrow> string"

text \<open>
  \<^verbatim>\<open>RAGSystem\<close>: its configuration, its vector store (\<^verbatim>\<open>self.vector_store\<close>) and the
  chat model, absent without an API key. The chat model is called with the prompt
  template filled with the context and the question.
\<close>

record 'f RAGSystem =
  config :: Config
  store :: "'f VectorStore"
  llm :: "(string \<Rightarrow> string \<Rightarrow> exn + string) option"

text \<open>
  \<^verbatim>\<open>_rebuild_knowledge_base\<close>: its boolean and the system as it is on return. The
  whole body is inside one \<^verbatim>\<open>try\<close> whose handler returns \<^verbatim>\<open>False\<close>.
\<close>

definition rebuild_knowledge_base :: "'f env \<Rightarrow> 'f RAGSystem \<Rightarrow> exn + (bool \<times> 'f RAGSystem)" where
  "rebuild_knowledge_base env self =
     (case env_new_processor env (CHUNK_SIZE (config self)) (CHUNK_OVERLAP (config self)) of
        Inl e \<Rightarrow> Inr (False, self)
      | Inr processor \<Rightarrow>
          (case process_directory processor (env_fs env) (KNOWLEDGE_BASE_PATH (config self)) of
             Inl e \<Rightarrow> Inr (False, self)
           | Inr documents \<Rightarrow>
               if documents = [] then Inr (False, self)
               else
                 (case create_index (env_faiss env) (store self) documents of
                    Inl e \<Rightarrow> Inr (False, self)
                  | Inr vs \<Rightarrow>
                      (case save_index (env_faiss env) (env_storage env) vs (VECTOR_DB_PATH (config self)) of
                         Inl e \<Rightarrow> Inr (False, self\<lparr>store := vs\<rparr>)
                       | Inr u \<Rightarrow> Inr (True, self\<lparr>store := vs\<rparr>)))))"

definition load_knowledge_base :: "'f env \<Rightarrow> 'f RAGSystem \<Rightarrow> bool \<Rightarrow> exn + (bool \<times> 'f RAGSystem)" where
  "load_knowledge_base env self force_rebuild =
     (if force_rebuild then rebuild_knowledge_base env self
      else
        (case load_index (env_storage env) (store self) (VECTOR_DB_PATH (config self)) of
           Inl e \<Rightarrow> Inl e
         | Inr (loaded, vs) \<Rightarrow>
             if loaded then Inr (True, self\<lparr>store := vs\<rparr>)
             else rebuild_knowledge_base env (self\<lparr>store := vs\<rparr>)))"

definition update_knowledge_base :: "'f env \<Rightarrow> 'f RAGSystem \<Rightarrow> exn + (bool \<times> 'f RAGSystem)" where
  "update_knowledge_base env self = rebuild_knowledge_base env self"

definition retrieve_context :: "'f env \<Rightarrow> 'f RAGSystem \<Rightarrow> string \<Rightarrow> int \<Rightarrow> exn + document list" where
  "retrieve_context env self query k =
     try_except (similarity_search (env_faiss env) (store self) query k) (\<lambda>e. Inr [])"

text \<open>
  The states of the orchestrator as the specification names them. The code keeps no
  such field: the system is \<open>EMPTY\<close> while its vector store holds no index, and nothing
  in the code ever marks it \<open>STALE\<close>.
\<close>

datatype kb_state = EMPTY | LOADED | STALE

definition kb_state_of :: "'f RAGSystem \<Rightarrow> kb_state" where
  "kb_state_of self = (case vector_store (store self) of None \<Rightarrow> EMPTY | Some f \<Rightarrow> LOADED)"

definition generate_answer :: "'f env \<Rightarrow> 'f RAGSystem \<Rightarrow> string \<Rightarrow> document list \<Rightarrow> exn + string" where
  "generate_answer env self question context_docs =
     (case llm self of
        None \<Rightarrow>
          Inr ''Error: OpenAI API key not configured. Please set OPENAI_API_KEY in your environment.''
      | Some call \<Rightarrow>
          try_except
            (let context =
                   join_str [CHR 0x0A, CHR 0x0A]
                     (map (\<lambda>doc. ''Source: '' @
                                  env_str env (dict_get (metadata doc) ''filename'' (PStr ''Unknown'')) @
                                  [CHR 0x0A] @ page_content doc)
                        context_docs)
             in call context question)
            (\<lambda>e. Inr (''Error generating answer: '' @ exn_str e)))"

text \<open>
  \<^verbatim>\<open>answer_question\<close>. \<open>source_info\<close> is the record built for one document and
  \<open>sources_loop\<close> the loop that appends it to \<^verbatim>\<open>sources\<close> unless it is there.
\<close>

definition source_info :: "document \<Rightarrow> pyval" where
  "source_info doc =
     PDict [(''filename'', dict_get (metadata doc) ''filename'' (PStr ''Unknown'')),
            (''type'', dict_get (metadata doc) ''type'' (PStr ''Unknown'')),
            (''chunk_id'', dict_get (metadata doc) ''chunk_id'' (PInt 0))]"

fun sources_loop :: "document list \<Rightarrow> pyval list \<Rightarrow> pyval list" where
  "sources_loop [] sources = sources"
| "sources_loop (doc # docs) sources =
     sources_loop docs
       (if source_info doc \<notin> set sources then sources @ [source_info doc] else sources)"

definition answer_question :: "'f env \<Rightarrow> 'f RAGSystem \<Rightarrow> string \<Rightarrow> int \<Rightarrow> exn + dict" where
  "answer_question env self question retrieve_k =
     try_except
       (case retrieve_context env self question retrieve_k of
          Inl e \<Rightarrow> Inl e
        | Inr context_docs \<Rightarrow>
            (case generate_answer env self question context_docs of
               Inl e \<Rightarrow> Inl e
             | Inr answer \<Rightarrow>
                 Inr [(''answer'', PStr answer),
                      (''sources'', PList (sources_loop context_docs [])),
                      (''context_count'', PInt (int (length context_docs))),
                      (''question'', PStr question)]))
       (\<lambda>e. Inr [(''answer'', PStr (''Error processing question: '' @ exn_str e)),
                  (''sources'', PList []),
                  (''context_count'', PInt 0),
                  (''question'', PStr question)])"

section \<open>Concrete inputs\<close>

text \<open>
  A small index on which the functions can be run: it keeps the documents in insertion
  order and answers a search with the first \<open>k\<close> of them. \<open>failing_faiss\<close> is the
  same index when embedding fails.
\<close>

definition list_faiss :: "document list faiss" where
  "list_faiss =
     \<lparr>from_documents = (\<lambda>docs. Inr docs),
      faiss_add_documents = (\<lambda>f docs. (f @ docs, None)),
      faiss_similarity_search = (\<lambda>f query k. Inr (take (nat k) f)),
      docstore_len = length\<rparr>"

definition failing_faiss :: "document list faiss" where
  "failing_faiss = list_faiss\<lparr>from_documents := (\<lambda>docs. Inl (PyException ''embedding failed''))\<rparr>"

definition leadership_doc :: document where
  "leadership_doc =
     \<lparr>page_content = ''Transformational leadership inspires change.'',
      metadata = [(''source'', PStr ''knowledge_base/leadership.txt''),
                  (''filename'', PStr ''leadership.txt''),
                  (''type'', PStr ''TXT'')]\<rparr>"

definition empty_store :: "document list VectorStore" where
  "empty_store = \<lparr>embedding_model = ''sentence-transformers/all-MiniLM-L6-v2'', vector_store = None\<rparr>"

definition loaded_store :: "document list VectorStore" where
  "loaded_store = empty_store\<lparr>vector_store := Some [leadership_doc]\<rparr>"

definition default_config :: Config where
  "default_config =
     \<lparr>KNOWLEDGE_BASE_PATH = [''knowledge_base''],
      VECTOR_DB_PATH = [''vector_db''],
      CHUNK_SIZE = 1000,
      CHUNK_OVERLAP = 200,
      EMBEDDING_MODEL = ''sentence-transformers/all-MiniLM-L6-v2''\<rparr>"

text \<open>
  The processor of the default configuration and one with small chunks.
\<close>

definition default_processor :: DocumentProcessor where
  "default_processor =
     \<lparr>chunk_size = 1000, chunk_overlap = 200,
      split_text = split_text_rec 1000 200 default_separators\<rparr>"

definition small_processor :: DocumentProcessor where
  "small_processor =
     \<lparr>chunk_size = 20, chunk_overlap = 5,
      split_text = split_text_rec 20 5 default_separators\<rparr>"

text \<open>
  A file system with a knowledge base of three files: a text file, a file that cannot
  be decoded, and a file with only white space. \<open>no_files\<close> is an existing directory
  without files. In \<open>denied_files\<close> the second entry lies in a directory that may not
  be searched, so that \<^verbatim>\<open>is_file\<close> raises on it.
\<close>

definition three_files :: filesystem where
  "three_files =
     \<lparr>fs_exists = (\<lambda>p. Inr True),
      fs_rglob = (\<lambda>p. ([[''knowledge_base'', ''leadership.txt''],
                          [''knowledge_base'', ''broken.md''],
                          [''knowledge_base'', ''blank.txt'']], None)),
      fs_is_file = (\<lambda>p. Inr True),
      fs_read = (\<lambda>p. if p = [''knowledge_base'', ''leadership.txt'']
                       then Inr ''Transformational leadership inspires change.''
                       else if p = [''knowledge_base'', ''blank.txt''] then Inr ''  ''
                       else Inl (PyException ''UnicodeDecodeError'')),
      fs_pdf_pages = (\<lambda>p. Inl (PyException ''not a PDF''))\<rparr>"

definition no_files :: filesystem where
  "no_files = three_files\<lparr>fs_rglob := (\<lambda>p. ([], None))\<rparr>"

definition denied_files :: filesystem where
  "denied_files =
     \<lparr>fs_exists = (\<lambda>p. Inr True),
      fs_rglob = (\<lambda>p. ([[''knowledge_base'', ''leadership.txt''],
                          [''knowledge_base'', ''private'', ''notes.txt'']], None)),
      fs_is_file = (\<lambda>p. if p = [''knowledge_base'', ''private'', ''notes.txt'']
                          then Inl (PyException ''PermissionError'') else Inr True),
      fs_read = (\<lambda>p. if p = [''knowledge_base'', ''leadership.txt'']
                       then Inr ''Transformational leadership inspires change.''
                       else Inl (PyException ''PermissionError'')),
      fs_pdf_pages = (\<lambda>p. Inl (PyException ''not a PDF''))\<rparr>"

definition empty_disk :: "document list disk" where
  "empty_disk = (\<lambda>p. None)"

text \<open>
  A storage whose index directory may not be searched, so that \<^verbatim>\<open>exists\<close> raises, and
  a storage on which saving the index fails.
\<close>

definition denied_storage :: "document list storage" where
  "denied_storage = (disk_storage empty_disk)\<lparr>io_exists := (\<lambda>p. Inl (PyException ''PermissionError''))\<rparr>"

definition full_storage :: "document list storage" where
  "full_storage =
     (disk_storage empty_disk)
       \<lparr>io_fails := (\<lambda>x. case x of SaveLocal f p \<Rightarrow> Some (PyException ''No space left on device'')
                             | _ \<Rightarrow> None)\<rparr>"

definition demo_env :: "document list env" where
  "demo_env =
     \<lparr>env_fs = three_files,
      env_faiss = list_faiss,
      env_storage = disk_storage empty_disk,
      env_new_processor = DocumentProcessor_init,
      env_str = (\<lambda>v. case v of PStr s \<Rightarrow> s | _ \<Rightarrow> ''?'')\<rparr>"

definition empty_rag :: "document list RAGSystem" where
  "empty_rag = \<lparr>config = default_config, store = empty_store, llm = None\<rparr>"

definition loaded_rag :: "document list RAGSystem" where
  "loaded_rag = empty_rag\<lparr>store := loaded_store\<rparr>"

text \<open>A system with an index whose chat model raises on every call.\<close>

definition failing_llm_rag :: "document list RAGSystem" where
  "failing_llm_rag = loaded_rag\<lparr>llm := Some (\<lambda>context question. Inl (PyException ''rate limit''))\<rparr>"

text \<open>
  A document without content, a document with white space around its content, and the
  disk after the loaded store has been saved to the configured path.
\<close>

definition empty_doc :: document where
  "empty_doc = \<lparr>page_content = [], metadata = [(''filename'', PStr ''empty.txt'')]\<rparr>"

definition padded_doc :: document where
  "padded_doc = \<lparr>page_content = '' hello '', metadata = [(''filename'', PStr ''hello.txt'')]\<rparr>"

definition persisted_disk :: "document list disk" where
  "persisted_disk = apply_ops (save_index_ops list_faiss loaded_store [''vector_db'']) empty_disk"

text \<open>The store after a rebuild that found a second document.\<close>

definition rebuilt_store :: "document list VectorStore" where
  "rebuilt_store = empty_store\<lparr>vector_store := Some [leadership_doc, empty_doc]\<rparr>"

section \<open>Descriptions used in the statements\<close>

text \<open>
  The chunk made from the \<open>i\<close>-th piece of a document, and the chunks of one
  document.
\<close>

definition chunk_of :: "dict \<Rightarrow> int \<Rightarrow> int \<Rightarrow> string \<Rightarrow> document" where
  "chunk_of md n i c =
     \<lparr>page_content = c, metadata = dict_set (dict_set md ''chunk_id'' (PInt i)) ''total_chunks'' (PInt n)\<rparr>"

definition doc_chunks :: "DocumentProcessor \<Rightarrow> document \<Rightarrow> document list" where
  "doc_chunks p d =
     (let cs = split_text p (page_content d)
      in map (\<lambda>j. chunk_of (metadata d) (int (length cs)) (int j) (cs ! j)) [0..<length cs])"

text \<open>
  What the directory scan does with one file, seen from outside the loop: the loader
  chosen by the extension, whether the file is supported, loads and has content, and
  the document made from it.
\<close>

definition load_file :: "filesystem \<Rightarrow> path \<Rightarrow> exn + string" where
  "load_file fs p =
     (if lower (path_suffix p) = ''.pdf'' then load_pdf fs p else load_text_file fs p)"

definition loads_nonempty :: "filesystem \<Rightarrow> path \<Rightarrow> bool" where
  "loads_nonempty fs p =
     (fs_is_file fs p = Inr True \<and> lower (path_suffix p) \<in> set supported_extensions \<and>
      (case load_file fs p of Inl e \<Rightarrow> False | Inr content \<Rightarrow> strip content \<noteq> []))"

definition document_for :: "filesystem \<Rightarrow> path \<Rightarrow> document" where
  "document_for fs p =
     \<lparr>page_content = (case load_file fs p of Inl e \<Rightarrow> [] | Inr content \<Rightarrow> content),
      metadata = [(''source'', PStr (path_str p)),
                  (''filename'', PStr (path_name p)),
                  (''type'', PStr (upper (drop 1 (path_suffix p))))]\<rparr>"

text \<open>The path an operation of the storage writes to.\<close>

fun op_target :: "'f io_op \<Rightarrow> path" where
  "op_target (Mkdir q) = q"
| "op_target (SaveLocal g q) = q"
| "op_target (OpenWrite q) = q"
| "op_target (PickleDump v q) = q"
| "op_target (Rename a q) = q"

section \<open>Search without an index\<close>

text \<open>
  Claim C1. For every query and every \<open>k\<close> (so in particular for every \<open>k\<close> of at
  least one), \<^verbatim>\<open>similarity_search\<close> on a vector store in which no index has been
  created or loaded returns the empty list and does not raise, and so does
  \<^verbatim>\<open>retrieve_context\<close> of an orchestrator in the state \<open>EMPTY\<close>.
\<close>

theorem search_without_index_is_empty:
  "(vector_store self = None \<longrightarrow> similarity_search lib self query k = Inr []) \<and>
   (kb_state_of rag = EMPTY \<longrightarrow> retrieve_context env rag query k = Inr [])"
  by (auto simp: similarity_search_def retrieve_context_def kb_state_of_def try_except_def
           split: option.splits)

theorem search_without_index_is_empty_witness:
  "vector_store empty_store = None \<and>
   similarity_search list_faiss empty_store ''leadership'' 3 = Inr [] \<and>
   kb_state_of empty_rag = EMPTY \<and>
   retrieve_context demo_env empty_rag ''leadership'' 3 = Inr []"
  using search_without_index_is_empty [of empty_store list_faiss "''leadership''" 3 empty_rag demo_env]
  by (simp add: empty_store_def empty_rag_def kb_state_of_def)

section \<open>Creating an index from no chunks\<close>

text \<open>
  Claim C8. \<^verbatim>\<open>create_index\<close> called with an empty chunk list takes the no-op
  branch: it returns without raising and the vector store, with whatever index it
  holds, is unchanged. \<^verbatim>\<open>add_documents\<close> with an empty list does the same.
\<close>

theorem create_index_empty_is_noop:
  "create_index lib self [] = Inr self \<and> add_documents lib self [] = (self, None)"
  by (simp add: create_index_def add_documents_def)

section \<open>Statistics\<close>

text \<open>
  Claim C5 says that \<^verbatim>\<open>get_stats\<close> returns the three fields \<open>status\<close>,
  \<open>document_count\<close> and \<open>embedding_model\<close> in every state. On a store without an
  index the dictionary has only the first two.
\<close>

theorem get_stats_uninitialized_counterexample:
  "dict_keys (get_stats list_faiss empty_store) = [''status'', ''document_count'']"
  by (simp add: get_stats_def empty_store_def dict_keys_def)

text \<open>
  Claim C5 as amended. \<^verbatim>\<open>get_stats\<close> returns \<open>status\<close> and \<open>document_count\<close> in
  every state: \<open>not_initialized\<close> and \<open>0\<close> without an index, \<open>initialized\<close> and the
  size of the document store with one. The field \<open>embedding_model\<close> is present
  exactly when an index is held.
\<close>

theorem get_stats_fields:
  "dict_keys (get_stats lib self) =
     (if vector_store self = None then [''status'', ''document_count'']
      else [''status'', ''document_count'', ''embedding_model'']) \<and>
   map_of (get_stats lib self) ''status'' =
     Some (PStr (if vector_store self = None then ''not_initialized'' else ''initialized'')) \<and>
   map_of (get_stats lib self) ''document_count'' =
     Some (PInt (case vector_store self of None \<Rightarrow> 0 | Some f \<Rightarrow> int (docstore_len lib f))) \<and>
   map_of (get_stats lib self) ''embedding_model'' =
     (if vector_store self = None then None else Some (PStr (embedding_model self)))"
  by (simp add: get_stats_def dict_keys_def split: option.splits)


section \<open>Chunk numbering\<close>

lemma chunk_loop_eq:
  "chunk_loop md n i cs acc = acc @ map (\<lambda>j. chunk_of md n (i + int j) (cs ! j)) [0..<length cs]"
proof (induction cs arbitrary: i acc)
  case Nil
  show ?case by simp
next
  case (Cons c cs)
  have upt: "[0..<length (c # cs)] = 0 # map Suc [0..<length cs]"
    by (simp add: upt_conv_Cons map_Suc_upt del: upt_Suc)
  have "map (\<lambda>j. chunk_of md n (i + int j) ((c # cs) ! j)) [0..<length (c # cs)] =
        chunk_of md n i c # map (\<lambda>j. chunk_of md n (i + 1 + int j) (cs ! j)) [0..<length cs]"
    unfolding upt by (simp add: comp_def ac_simps)
  then show ?case
    using Cons.IH [of "i + 1"] by (simp add: chunk_of_def)
qed

lemma chunk_docs_loop_eq:
  "chunk_docs_loop p docs acc = acc @ concat (map (doc_chunks p) docs)"
  by (induction docs arbitrary: acc) (simp_all add: Let_def chunk_loop_eq doc_chunks_def)

lemma chunk_documents_eq: "chunk_documents p docs = concat (map (doc_chunks p) docs)"
  by (simp add: chunk_documents_def chunk_docs_loop_eq)

lemma chunk_documents_single: "chunk_documents p [d] = doc_chunks p d"
  by (simp add: chunk_documents_eq)

lemma length_doc_chunks: "length (doc_chunks p d) = length (split_text p (page_content d))"
  by (simp add: doc_chunks_def Let_def)

lemma chunk_of_chunk_id: "map_of (metadata (chunk_of md n i c)) ''chunk_id'' = Some (PInt i)"
  by (simp add: chunk_of_def dict_set_def update_conv')

lemma chunk_of_total_chunks: "map_of (metadata (chunk_of md n i c)) ''total_chunks'' = Some (PInt n)"
  by (simp add: chunk_of_def dict_set_def update_conv')

lemma doc_chunks_ids:
  "map (\<lambda>c. map_of (metadata c) ''chunk_id'') (doc_chunks p d) =
   map (\<lambda>i. Some (PInt (int i))) [0..<length (doc_chunks p d)]"
  by (simp add: doc_chunks_def Let_def chunk_of_chunk_id comp_def)

lemma doc_chunks_total:
  "c \<in> set (doc_chunks p d) \<Longrightarrow>
   map_of (metadata c) ''total_chunks'' = Some (PInt (int (length (doc_chunks p d))))"
  by (auto simp: doc_chunks_def Let_def chunk_of_total_chunks)

lemma doc_chunks_bounds:
  "c \<in> set (doc_chunks p d) \<Longrightarrow>
   \<exists>i n. map_of (metadata c) ''chunk_id'' = Some (PInt i) \<and>
         map_of (metadata c) ''total_chunks'' = Some (PInt n) \<and> 0 \<le> i \<and> i < n"
  by (auto simp: doc_chunks_def Let_def chunk_of_total_chunks chunk_of_chunk_id)

text \<open>
  Claim C7. For every document list and every splitter, the output of
  \<^verbatim>\<open>chunk_documents\<close> is the concatenation of the chunks of each document in turn.
  A document gives as many chunks as the splitter returns pieces, their \<open>chunk_id\<close>
  are \<open>0, 1, \<dots>\<close> up to the number of chunks minus one in output order, and all of
  them carry that number of chunks as \<open>total_chunks\<close>. So every chunk of the output
  has \<open>0 \<le> chunk_id < total_chunks\<close>.
\<close>

theorem chunk_ids_enumerate_each_document:
  "chunk_documents p docs = concat (map (\<lambda>d. chunk_documents p [d]) docs) \<and>
   length (chunk_documents p [d]) = length (split_text p (page_content d)) \<and>
   map (\<lambda>c. map_of (metadata c) ''chunk_id'') (chunk_documents p [d]) =
     map (\<lambda>i. Some (PInt (int i))) [0..<length (chunk_documents p [d])] \<and>
   (\<forall>c \<in> set (chunk_documents p [d]).
      map_of (metadata c) ''total_chunks'' = Some (PInt (int (length (chunk_documents p [d]))))) \<and>
   (\<forall>c \<in> set (chunk_documents p docs).
      \<exists>i n. map_of (metadata c) ''chunk_id'' = Some (PInt i) \<and>
            map_of (metadata c) ''total_chunks'' = Some (PInt n) \<and> 0 \<le> i \<and> i < n)"
proof -
  have "chunk_documents p docs = concat (map (\<lambda>d. chunk_documents p [d]) docs)"
    by (simp add: chunk_documents_eq)
  moreover have "length (chunk_documents p [d]) = length (split_text p (page_content d))"
    by (simp add: chunk_documents_single length_doc_chunks)
  moreover have "map (\<lambda>c. map_of (metadata c) ''chunk_id'') (chunk_documents p [d]) =
     map (\<lambda>i. Some (PInt (int i))) [0..<length (chunk_documents p [d])]"
    unfolding chunk_documents_single by (rule doc_chunks_ids)
  moreover have "\<forall>c \<in> set (chunk_documents p [d]).
      map_of (metadata c) ''total_chunks'' = Some (PInt (int (length (chunk_documents p [d]))))"
    unfolding chunk_documents_single using doc_chunks_total by blast
  moreover have "\<forall>c \<in> set (chunk_documents p docs).
      \<exists>i n. map_of (metadata c) ''chunk_id'' = Some (PInt i) \<and>
            map_of (metadata c) ''total_chunks'' = Some (PInt n) \<and> 0 \<le> i \<and> i < n"
    unfolding chunk_documents_eq using doc_chunks_bounds by fastforce
  ultimately show ?thesis by blast
qed

theorem chunk_ids_enumerate_each_document_witness:
  "map page_content (chunk_documents small_processor [leadership_doc]) =
     [''Transformational'', ''leadership inspires'', ''change.''] \<and>
   map (\<lambda>c. map_of (metadata c) ''chunk_id'') (chunk_documents small_processor [leadership_doc]) =
     [Some (PInt 0), Some (PInt 1), Some (PInt 2)] \<and>
   map (\<lambda>c. map_of (metadata c) ''total_chunks'') (chunk_documents small_processor [leadership_doc]) =
     [Some (PInt 3), Some (PInt 3), Some (PInt 3)]"
proof -
  have len: "length (chunk_documents small_processor [leadership_doc]) = 3"
    by code_simp
  have upt3: "[0..<3] = [0, Suc 0, Suc (Suc 0)]"
    by (simp add: upt_rec)
  have texts: "map page_content (chunk_documents small_processor [leadership_doc]) =
     [''Transformational'', ''leadership inspires'', ''change.'']"
    by code_simp
  note fact = chunk_ids_enumerate_each_document
                [of small_processor "[leadership_doc]" leadership_doc]
  have ids: "map (\<lambda>c. map_of (metadata c) ''chunk_id'') (chunk_documents small_processor [leadership_doc]) =
     [Some (PInt 0), Some (PInt 1), Some (PInt 2)]"
    using fact by (simp add: len upt3)
  have "\<forall>c \<in> set (chunk_documents small_processor [leadership_doc]).
          map_of (metadata c) ''total_chunks'' = Some (PInt 3)"
    using fact by (simp add: len)
  then have "map (\<lambda>c. map_of (metadata c) ''total_chunks'') (chunk_documents small_processor [leadership_doc]) =
     replicate (length (chunk_documents small_processor [leadership_doc])) (Some (PInt 3))"
    by (simp add: map_replicate_const [symmetric] cong: map_cong)
  then have tot: "map (\<lambda>c. map_of (metadata c) ''total_chunks'') (chunk_documents small_processor [leadership_doc]) =
     [Some (PInt 3), Some (PInt 3), Some (PInt 3)]"
    by (simp add: len numeral_3_eq_3)
  show ?thesis using texts ids tot by simp
qed

section \<open>The directory scan\<close>

lemma load_step_returns:
  "fs_is_file fs p = Inr b \<Longrightarrow>
   load_step fs p acc = Inr (if loads_nonempty fs p then acc @ [document_for fs p] else acc)"
  by (auto simp: load_step_def loads_nonempty_def document_for_def load_file_def split: sum.splits)

lemma load_step_raises: "fs_is_file fs p = Inl e \<Longrightarrow> load_step fs p acc = Inl e"
  by (simp add: load_step_def)

lemma load_loop_returns:
  "\<forall>p \<in> set ps. \<exists>b. fs_is_file fs p = Inr b \<Longrightarrow>
   load_loop fs ps acc = Inr (acc @ map (document_for fs) (filter (loads_nonempty fs) ps))"
proof (induction ps arbitrary: acc)
  case Nil
  show ?case by simp
next
  case (Cons p ps)
  then obtain b where "fs_is_file fs p = Inr b" by auto
  then show ?case
    using Cons by (simp add: load_step_returns)
qed

lemma load_loop_raises:
  "\<forall>p \<in> set ps. \<exists>b. fs_is_file fs p = Inr b \<Longrightarrow> fs_is_file fs q = Inl e \<Longrightarrow>
   load_loop fs (ps @ q # rest) acc = Inl e"
proof (induction ps arbitrary: acc)
  case Nil
  then show ?case by (simp add: load_step_raises)
next
  case (Cons p ps)
  then obtain b where "fs_is_file fs p = Inr b" by auto
  then show ?case
    using Cons by (simp add: load_step_returns)
qed

text \<open>
  When the existence test, the enumeration and every \<^verbatim>\<open>is_file\<close> test return, the
  scan gives one document for each enumerated file with a supported extension whose
  load does not raise and whose content is not blank, in enumeration order; a file
  whose load raises or whose content is blank is left out and the files after it are
  still loaded. An exception of \<^verbatim>\<open>is_file\<close> on one entry ends the scan, whatever the
  entries before and after it would give.
\<close>

lemma directory_scan_when_tests_return:
  "fs_exists fs dir = Inr True \<Longrightarrow> fs_rglob fs dir = (ps, None) \<Longrightarrow>
   \<forall>p \<in> set ps. \<exists>b. fs_is_file fs p = Inr b \<Longrightarrow>
   load_documents_from_directory fs dir =
     Inr (map (document_for fs) (filter (loads_nonempty fs) ps))"
  by (simp add: load_documents_from_directory_def load_loop_returns)

lemma directory_scan_aborts_when_is_file_raises:
  "fs_exists fs dir = Inr True \<Longrightarrow> fs_rglob fs dir = (ps @ q # rest, raised) \<Longrightarrow>
   \<forall>p \<in> set ps. \<exists>b. fs_is_file fs p = Inr b \<Longrightarrow> fs_is_file fs q = Inl e \<Longrightarrow>
   load_documents_from_directory fs dir = Inl e"
  by (simp add: load_documents_from_directory_def load_loop_raises)

text \<open>
  Claim C9 says that for every directory the scan loads each supported file
  independently and that one file never aborts the batch. The knowledge base holds
  \<open>leadership.txt\<close>, which loads, and an entry in a directory that may not be
  searched. The test \<^verbatim>\<open>is_file\<close> raises \<^verbatim>\<open>PermissionError\<close> on that entry, outside the
  \<^verbatim>\<open>try\<close> that contains the failures of a load, and the scan raises it: no list is
  returned, and the document already loaded is lost. With the same files and an
  \<^verbatim>\<open>is_file\<close> that returns, the scan returns the loaded document and leaves out the
  files that do not load.
\<close>

theorem directory_scan_aborts_on_inaccessible_entry:
  "load_documents_from_directory denied_files [''knowledge_base''] = Inl (PyException ''PermissionError'') \<and>
   load_step denied_files [''knowledge_base'', ''leadership.txt''] [] = Inr [leadership_doc] \<and>
   load_documents_from_directory three_files [''knowledge_base''] = Inr [leadership_doc]"
proof -
  have a: "load_step denied_files [''knowledge_base'', ''leadership.txt''] [] = Inr [leadership_doc]"
    by code_simp
  have c: "load_documents_from_directory denied_files [''knowledge_base''] =
             Inl (PyException ''PermissionError'')"
    by code_simp
  have d: "load_documents_from_directory three_files [''knowledge_base''] = Inr [leadership_doc]"
    by code_simp
  from a c d show ?thesis by blast
qed

section \<open>Documents shorter than a chunk\<close>

lemma strip_Nil: "strip [] = []"
  by (simp add: strip_def)

lemma join_str_Nil: "join_str [] xs = concat xs"
  by (induction "[] :: string" xs rule: join_str.induct) simp_all

lemma starts_with_drop: "starts_with s sep \<Longrightarrow> sep @ drop (length sep) s = s"
  by (induction s sep rule: starts_with.induct) simp_all

lemma split_on_concat:
  "\<exists>first others. split_on sep text piece = first # others \<and>
                   first @ concat (map (\<lambda>t. sep @ t) others) = piece @ text"
proof (induction sep "text" piece rule: split_on.induct)
  case (1 sep str piece)
  show ?case
  proof (cases "str = []")
    case True
    then show ?thesis by (subst split_on.simps) simp
  next
    case nonempty: False
    show ?thesis
    proof (cases "sep \<noteq> [] \<and> starts_with str sep")
      case True
      then have pre: "sep @ drop (length sep) str = str"
        by (simp add: starts_with_drop)
      from "1.IH"(1) [OF nonempty True]
      obtain first others where
        rec: "split_on sep (drop (length sep) str) [] = first # others"
          "first @ concat (map (\<lambda>t. sep @ t) others) = drop (length sep) str"
        by auto
      have "split_on sep str piece = piece # first # others"
        using nonempty True rec(1) by (subst split_on.simps) simp
      moreover have "piece @ concat (map (\<lambda>t. sep @ t) (first # others)) = piece @ str"
        using rec(2) pre by simp
      ultimately show ?thesis by blast
    next
      case False
      from "1.IH"(2) [OF nonempty False]
      obtain first others where
        rec: "split_on sep (tl str) (piece @ [hd str]) = first # others"
          "first @ concat (map (\<lambda>t. sep @ t) others) = (piece @ [hd str]) @ tl str"
        by auto
      have "split_on sep str piece = first # others"
        using nonempty False rec(1) by (subst split_on.simps) auto
      moreover have "(piece @ [hd str]) @ tl str = piece @ str"
        using nonempty by simp
      ultimately show ?thesis using rec(2) by auto
    qed
  qed
qed

lemma concat_filter_nonempty: "concat (filter (\<lambda>s. s \<noteq> []) xs) = concat xs"
  by (induction xs) auto

lemma concat_chars: "concat (map (\<lambda>c. [c]) s) = s"
  by (induction s) auto

lemma concat_split_text_with_regex: "concat (split_text_with_regex text separator) = text"
proof (cases "separator = []")
  case True
  then show ?thesis
    by (simp add: split_text_with_regex_def concat_filter_nonempty concat_chars)
next
  case False
  obtain first others where
    "split_on separator text [] = first # others"
    "first @ concat (map (\<lambda>t. separator @ t) others) = [] @ text"
    using split_on_concat [of separator "text" "[]"] by blast
  then show ?thesis
    using False by (simp add: split_text_with_regex_def concat_filter_nonempty del: filter.simps)
qed

lemma length_le_concat: "s \<in> set xs \<Longrightarrow> length s \<le> length (concat xs)"
  by (induction xs) auto

lemma sum_lengths_concat: "sum_list (map (\<lambda>s. int (length s)) xs) = int (length (concat xs))"
  by (induction xs) auto

lemma merge_loop_fits:
  "tot + sum_list (map (\<lambda>s. int (length s)) ds) \<le> csize \<Longrightarrow>
   merge_loop csize coverlap [] ds (docs, cur, tot) =
     (case join_docs (cur @ ds) [] of None \<Rightarrow> docs | Some doc \<Rightarrow> docs @ [doc])"
proof (induction ds arbitrary: cur tot)
  case Nil
  show ?case by simp
next
  case (Cons d ds)
  have nonneg: "0 \<le> sum_list (map (\<lambda>s. int (length s)) ds)"
    by (induction ds) auto
  with Cons.prems have fits: "\<not> tot + int (length d) > csize"
    by simp
  have step: "merge_step csize coverlap [] d (docs, cur, tot) = (docs, cur @ [d], tot + int (length d))"
    using fits by (simp add: merge_step_def Let_def)
  have "tot + int (length d) + sum_list (map (\<lambda>s. int (length s)) ds) \<le> csize"
    using Cons.prems by simp
  from Cons.IH [OF this] show ?case
    by (simp add: step)
qed

lemma split_loop_all_good:
  "\<forall>s \<in> set splits. int (length s) < csize \<Longrightarrow>
   split_loop csize coverlap deeper splits good final =
     (if good @ splits \<noteq> [] then final @ merge_splits csize coverlap (good @ splits) [] else final)"
  by (induction splits arbitrary: good) auto

lemma split_text_rec_short:
  assumes "int (length text) < csize"
  shows "split_text_rec csize coverlap separators text =
           (if strip text = [] then [] else [strip text])"
proof -
  obtain separator new_separators where
    ch: "choose_separator (last separators) separators text = (separator, new_separators)"
    by (cases "choose_separator (last separators) separators text")
  define splits where "splits = split_text_with_regex text separator"
  have cat: "concat splits = text"
    by (simp add: splits_def concat_split_text_with_regex)
  have good: "\<forall>s \<in> set splits. int (length s) < csize"
  proof
    fix s assume "s \<in> set splits"
    then have "length s \<le> length text"
      using length_le_concat [of s splits] cat by simp
    with assms show "int (length s) < csize" by simp
  qed
  have rec: "split_text_rec csize coverlap separators text =
               (if splits \<noteq> [] then merge_splits csize coverlap splits [] else [])"
    by (subst split_text_rec.simps) (simp add: ch splits_def [symmetric] split_loop_all_good [OF good])
  have "0 + sum_list (map (\<lambda>s. int (length s)) splits) \<le> csize"
    using assms by (simp add: sum_lengths_concat cat)
  from merge_loop_fits [OF this, of coverlap "[]" "[]"]
  have merged: "merge_splits csize coverlap splits [] =
                  (if strip text = [] then [] else [strip text])"
    by (simp add: merge_splits_def join_docs_def join_str_Nil cat Let_def)
  have "strip text = []" if "splits = []"
    using that cat by (simp add: strip_def)
  then show ?thesis
    using rec merged by auto
qed

lemma default_processor_init: "DocumentProcessor_init 1000 200 = Inr default_processor"
  by (simp add: DocumentProcessor_init_def default_processor_def)

text \<open>
  Claim C3 says that every document shorter than \<open>chunk_size\<close> gives exactly one
  chunk equal to its content. With the default configuration, the empty document is
  shorter than \<open>chunk_size\<close> and gives no chunk, and the document whose content is
  \<open>hello\<close> with a space on each side gives one chunk whose text is \<open>hello\<close> without
  the spaces.
\<close>

theorem short_document_counterexample:
  "DocumentProcessor_init 1000 200 = Inr default_processor \<and>
   int (length (page_content empty_doc)) < chunk_size default_processor \<and>
   chunk_documents default_processor [empty_doc] = [] \<and>
   int (length (page_content padded_doc)) < chunk_size default_processor \<and>
   page_content padded_doc = '' hello '' \<and>
   map page_content (chunk_documents default_processor [padded_doc]) = [''hello'']"
proof -
  have a: "chunk_documents default_processor [empty_doc] = []"
    by code_simp
  have b: "map page_content (chunk_documents default_processor [padded_doc]) = [''hello'']"
    by code_simp
  show ?thesis
    using a b by (simp add: default_processor_init) (simp add: default_processor_def empty_doc_def padded_doc_def)
qed

text \<open>
  Claim C3 as amended. For a processor that \<^verbatim>\<open>DocumentProcessor.__init__\<close> builds, a
  document whose content is shorter than \<open>chunk_size\<close> gives exactly one chunk when
  its content is not empty or white space only: the text of the chunk is the content
  without its leading and trailing white space, so it equals the content character for
  character exactly when the content has no white space at either end; its \<open>chunk_id\<close>
  is 0 and its \<open>total_chunks\<close> is 1. A document whose content is empty or white space
  only gives no chunk.
\<close>

theorem short_document_single_chunk:
  "DocumentProcessor_init csize coverlap = Inr p \<and> int (length (page_content D)) < chunk_size p \<longrightarrow>
     (strip (page_content D) \<noteq> [] \<longrightarrow>
        chunk_documents p [D] =
          [\<lparr>page_content = strip (page_content D),
            metadata = dict_set (dict_set (metadata D) ''chunk_id'' (PInt 0)) ''total_chunks'' (PInt 1)\<rparr>]) \<and>
     (strip (page_content D) = [] \<longrightarrow> chunk_documents p [D] = []) \<and>
     ((\<exists>c. chunk_documents p [D] = [c] \<and> page_content c = page_content D) \<longleftrightarrow>
        page_content D \<noteq> [] \<and> strip (page_content D) = page_content D)"
proof (intro impI)
  assume asm: "DocumentProcessor_init csize coverlap = Inr p \<and> int (length (page_content D)) < chunk_size p"
  then have p: "p = \<lparr>chunk_size = csize, chunk_overlap = coverlap,
                      split_text = split_text_rec csize coverlap default_separators\<rparr>"
    by (auto simp: DocumentProcessor_init_def split: if_splits)
  from asm p have short: "int (length (page_content D)) < csize"
    by simp
  have split: "split_text p (page_content D) =
                 (if strip (page_content D) = [] then [] else [strip (page_content D)])"
    using split_text_rec_short [OF short] by (simp add: p)
  have one: "strip (page_content D) \<noteq> [] \<Longrightarrow>
        chunk_documents p [D] =
          [\<lparr>page_content = strip (page_content D),
            metadata = dict_set (dict_set (metadata D) ''chunk_id'' (PInt 0)) ''total_chunks'' (PInt 1)\<rparr>]"
    by (simp add: chunk_documents_def split)
  have none: "strip (page_content D) = [] \<Longrightarrow> chunk_documents p [D] = []"
    by (simp add: chunk_documents_def split)
  have "(\<exists>c. chunk_documents p [D] = [c] \<and> page_content c = page_content D) \<longleftrightarrow>
        page_content D \<noteq> [] \<and> strip (page_content D) = page_content D"
  proof (cases "strip (page_content D) = []")
    case True
    then show ?thesis using none by auto
  next
    case False
    then show ?thesis using one by auto
  qed
  with one none show
    "(strip (page_content D) \<noteq> [] \<longrightarrow>
        chunk_documents p [D] =
          [\<lparr>page_content = strip (page_content D),
            metadata = dict_set (dict_set (metadata D) ''chunk_id'' (PInt 0)) ''total_chunks'' (PInt 1)\<rparr>]) \<and>
     (strip (page_content D) = [] \<longrightarrow> chunk_documents p [D] = []) \<and>
     ((\<exists>c. chunk_documents p [D] = [c] \<and> page_content c = page_content D) \<longleftrightarrow>
        page_content D \<noteq> [] \<and> strip (page_content D) = page_content D)"
    by blast
qed

theorem short_document_single_chunk_witness:
  "DocumentProcessor_init 1000 200 = Inr default_processor \<and>
   int (length (page_content leadership_doc)) < chunk_size default_processor \<and>
   strip (page_content leadership_doc) = ''Transformational leadership inspires change.'' \<and>
   chunk_documents default_processor [leadership_doc] =
     [\<lparr>page_content = ''Transformational leadership inspires change.'',
       metadata = [(''source'', PStr ''knowledge_base/leadership.txt''),
                   (''filename'', PStr ''leadership.txt''),
                   (''type'', PStr ''TXT''),
                   (''chunk_id'', PInt 0),
                   (''total_chunks'', PInt 1)]\<rparr>]"
proof -
  have a: "strip (page_content leadership_doc) = ''Transformational leadership inspires change.''"
    by code_simp
  have b: "int (length (page_content leadership_doc)) < chunk_size default_processor"
    by (simp add: leadership_doc_def default_processor_def)
  have c: "metadata leadership_doc = [(''source'', PStr ''knowledge_base/leadership.txt''),
                   (''filename'', PStr ''leadership.txt''), (''type'', PStr ''TXT'')]"
    by (simp add: leadership_doc_def)
  show ?thesis
    using a b short_document_single_chunk [of 1000 200 default_processor leadership_doc]
    by (simp add: default_processor_init c dict_set_def)
qed

section \<open>Reloading a persisted index\<close>

lemma load_index_outcome:
  assumes "io_exists io (path_join p ''faiss_index'') = Inr faiss_found"
    and "io_exists io (path_join p ''metadata.pkl'') = Inr metadata_found"
  shows "load_index io self p =
     (if \<not> faiss_found \<or> \<not> metadata_found then Inr (False, self)
      else
        (case io_read_pickle io (path_join p ''metadata.pkl'') of
           Inl e \<Rightarrow> Inr (False, self)
         | Inr md \<Rightarrow>
             (case py_get md ''embedding_model'' of
                Inl e \<Rightarrow> Inr (False, self)
              | Inr m \<Rightarrow>
                  (case io_load_local io (path_join p ''faiss_index'') of
                     Inl e \<Rightarrow> Inr (False, self)
                   | Inr f \<Rightarrow> Inr (True, self\<lparr>vector_store := Some f\<rparr>)))))"
proof (cases "io_read_pickle io (path_join p ''metadata.pkl'')")
  case (Inl e)
  then show ?thesis using assms by (simp add: load_index_def Let_def)
next
  case (Inr md)
  then show ?thesis
    using assms by (cases md) (simp_all add: load_index_def Let_def py_get_def split: sum.splits)
qed

lemma load_index_raises:
  "io_exists io (path_join p ''faiss_index'') = Inl e \<or>
   (io_exists io (path_join p ''faiss_index'') = Inr True \<and>
    io_exists io (path_join p ''metadata.pkl'') = Inl e) \<Longrightarrow>
   load_index io self p = Inl e"
  by (auto simp: load_index_def Let_def)

lemma load_index_absent:
  "io_exists io (path_join p ''faiss_index'') = Inr False \<Longrightarrow>
   load_index io self p = Inr (False, self)"
  by (simp add: load_index_def Let_def)

lemma persisted_disk_faiss:
  "persisted_disk [''vector_db'', ''faiss_index''] = Some (IndexDir [leadership_doc])"
  by (simp add: persisted_disk_def save_index_ops_def loaded_store_def empty_store_def
        path_join_def parent_def empty_disk_def)

lemma persisted_disk_metadata:
  "persisted_disk [''vector_db'', ''metadata.pkl''] =
     Some (PickleFile (PDict [(''embedding_model'', PStr ''sentence-transformers/all-MiniLM-L6-v2''),
                              (''document_count'', PInt 1)]))"
  by (simp add: persisted_disk_def save_index_ops_def loaded_store_def empty_store_def
        path_join_def parent_def empty_disk_def list_faiss_def)

lemma load_index_persisted:
  "load_index (disk_storage persisted_disk) empty_store [''vector_db''] = Inr (True, loaded_store)"
  by (simp add: load_index_def Let_def disk_storage_def path_join_def persisted_disk_faiss
        persisted_disk_metadata py_get_def loaded_store_def)

text \<open>
  Claim C6 says that \<^verbatim>\<open>load_index\<close> returns \<^verbatim>\<open>False\<close> and never raises whenever one
  of the two files is absent, unreadable or fails to deserialize, as its docstring
  does. The index directory may not be searched, so that \<^verbatim>\<open>exists()\<close> raises
  \<^verbatim>\<open>PermissionError\<close> on \<open>faiss_index\<close>. The test stands before the \<^verbatim>\<open>try\<close>, and
  \<^verbatim>\<open>load_index\<close> raises the exception instead of returning \<^verbatim>\<open>False\<close>. On an empty
  disk, where \<^verbatim>\<open>exists()\<close> returns, it returns \<^verbatim>\<open>False\<close> and leaves the store as it
  was.
\<close>

theorem load_index_raises_on_unreadable_directory:
  "io_exists denied_storage (path_join [''vector_db''] ''faiss_index'') = Inl (PyException ''PermissionError'') \<and>
   load_index denied_storage empty_store [''vector_db''] = Inl (PyException ''PermissionError'') \<and>
   load_index (disk_storage empty_disk) empty_store [''vector_db''] = Inr (False, empty_store)"
  by (simp add: load_index_def Let_def denied_storage_def disk_storage_def empty_disk_def)

section \<open>A failed rebuild\<close>

lemma rebuild_returns:
  "\<exists>b self'. rebuild_knowledge_base env self = Inr (b, self')"
  by (auto simp: rebuild_knowledge_base_def Let_def split: sum.splits)

text \<open>
  Claim C2. Let the orchestrator hold an index. If a rebuild, through
  \<^verbatim>\<open>load_knowledge_base(force_rebuild=True)\<close> or \<^verbatim>\<open>update_knowledge_base\<close>, fails
  because the document processor cannot be built, because the directory scan raises,
  because no documents are found, or because embedding and index construction
  (\<^verbatim>\<open>FAISS.from_documents\<close>) raise, it returns \<^verbatim>\<open>False\<close> and the orchestrator is
  exactly as before, so a search is still answered from the index it held. And
  whatever the outcome of a rebuild, the orchestrator holds an index afterwards.
\<close>

theorem failed_rebuild_keeps_loaded_index:
  "vector_store (store self) = Some f \<longrightarrow>
   ((\<exists>e. env_new_processor env (CHUNK_SIZE (config self)) (CHUNK_OVERLAP (config self)) = Inl e) \<or>
    (\<exists>proc. env_new_processor env (CHUNK_SIZE (config self)) (CHUNK_OVERLAP (config self)) = Inr proc \<and>
       ((\<exists>e. process_directory proc (env_fs env) (KNOWLEDGE_BASE_PATH (config self)) = Inl e) \<or>
        process_directory proc (env_fs env) (KNOWLEDGE_BASE_PATH (config self)) = Inr [] \<or>
        (\<exists>docs e. process_directory proc (env_fs env) (KNOWLEDGE_BASE_PATH (config self)) = Inr docs \<and>
                   from_documents (env_faiss env) docs = Inl e)))
    \<longrightarrow> load_knowledge_base env self True = Inr (False, self) \<and>
        update_knowledge_base env self = Inr (False, self) \<and>
        similarity_search (env_faiss env) (store self) query k =
          try_except (faiss_similarity_search (env_faiss env) f query k) (\<lambda>e. Inr [])) \<and>
   (\<exists>b self'. load_knowledge_base env self True = Inr (b, self') \<and>
              update_knowledge_base env self = Inr (b, self') \<and>
              vector_store (store self') \<noteq> None)"
proof (intro impI conjI)
  assume loaded: "vector_store (store self) = Some f"
  assume fail: "(\<exists>e. env_new_processor env (CHUNK_SIZE (config self)) (CHUNK_OVERLAP (config self)) = Inl e) \<or>
    (\<exists>proc. env_new_processor env (CHUNK_SIZE (config self)) (CHUNK_OVERLAP (config self)) = Inr proc \<and>
       ((\<exists>e. process_directory proc (env_fs env) (KNOWLEDGE_BASE_PATH (config self)) = Inl e) \<or>
        process_directory proc (env_fs env) (KNOWLEDGE_BASE_PATH (config self)) = Inr [] \<or>
        (\<exists>docs e. process_directory proc (env_fs env) (KNOWLEDGE_BASE_PATH (config self)) = Inr docs \<and>
                   from_documents (env_faiss env) docs = Inl e)))"
  then have r: "rebuild_knowledge_base env self = Inr (False, self)"
    by (auto simp: rebuild_knowledge_base_def Let_def create_index_def split: sum.splits)
  show "load_knowledge_base env self True = Inr (False, self)"
    by (simp add: load_knowledge_base_def r)
  show "update_knowledge_base env self = Inr (False, self)"
    by (simp add: update_knowledge_base_def r)
  show "similarity_search (env_faiss env) (store self) query k =
          try_except (faiss_similarity_search (env_faiss env) f query k) (\<lambda>e. Inr [])"
    by (simp add: similarity_search_def loaded)
next
  assume loaded: "vector_store (store self) = Some f"
  obtain b self' where r: "rebuild_knowledge_base env self = Inr (b, self')"
    using rebuild_returns by blast
  have "vector_store (store self') \<noteq> None"
    using r loaded
    by (auto simp: rebuild_knowledge_base_def Let_def create_index_def split: sum.splits if_splits)
  then show "\<exists>b self'. load_knowledge_base env self True = Inr (b, self') \<and>
              update_knowledge_base env self = Inr (b, self') \<and>
              vector_store (store self') \<noteq> None"
    using r by (simp add: load_knowledge_base_def update_knowledge_base_def)
qed

theorem failed_rebuild_keeps_loaded_index_witness:
  "vector_store (store loaded_rag) = Some [leadership_doc] \<and>
   process_directory default_processor no_files [''knowledge_base''] = Inr [] \<and>
   load_knowledge_base (demo_env\<lparr>env_fs := no_files\<rparr>) loaded_rag True = Inr (False, loaded_rag) \<and>
   process_directory default_processor three_files [''knowledge_base''] =
     Inr (chunk_documents default_processor [leadership_doc]) \<and>
   from_documents failing_faiss (chunk_documents default_processor [leadership_doc]) =
     Inl (PyException ''embedding failed'') \<and>
   update_knowledge_base (demo_env\<lparr>env_faiss := failing_faiss\<rparr>) loaded_rag = Inr (False, loaded_rag)"
proof -
  have a: "vector_store (store loaded_rag) = Some [leadership_doc]"
    by (simp add: loaded_rag_def loaded_store_def)
  have kb: "KNOWLEDGE_BASE_PATH (config loaded_rag) = [''knowledge_base'']"
    by (simp add: loaded_rag_def empty_rag_def default_config_def)
  have p: "env_new_processor demo_env (CHUNK_SIZE (config loaded_rag)) (CHUNK_OVERLAP (config loaded_rag)) =
             Inr default_processor"
    by (simp add: demo_env_def loaded_rag_def empty_rag_def default_config_def default_processor_init)
  have b: "process_directory default_processor no_files [''knowledge_base''] = Inr []"
    by code_simp
  have b': "process_directory default_processor three_files [''knowledge_base''] =
              Inr (chunk_documents default_processor [leadership_doc])"
    by code_simp
  have c: "from_documents failing_faiss docs = Inl (PyException ''embedding failed'')" for docs
    by (simp add: failing_faiss_def)
  have fs: "env_fs demo_env = three_files"
    by (simp add: demo_env_def)
  have 1: "load_knowledge_base (demo_env\<lparr>env_fs := no_files\<rparr>) loaded_rag True = Inr (False, loaded_rag)"
    using a p b kb
      failed_rebuild_keeps_loaded_index [of loaded_rag "[leadership_doc]" "demo_env\<lparr>env_fs := no_files\<rparr>"]
    by simp
  have 2: "update_knowledge_base (demo_env\<lparr>env_faiss := failing_faiss\<rparr>) loaded_rag = Inr (False, loaded_rag)"
    using a p b' c kb fs
      failed_rebuild_keeps_loaded_index [of loaded_rag "[leadership_doc]" "demo_env\<lparr>env_faiss := failing_faiss\<rparr>"]
    by simp
  from a b b' c 1 2 show ?thesis by blast
qed

section \<open>Saving the index\<close>

lemma run_ops_find:
  "run_ops fails xs =
     (case find (\<lambda>x. fails x \<noteq> None) xs of
        None \<Rightarrow> Inr ()
      | Some x \<Rightarrow> (case fails x of None \<Rightarrow> Inr () | Some e \<Rightarrow> Inl e))"
  by (induction xs) (auto split: option.splits)

lemma run_ops_Inl: "run_ops fails xs = Inl e \<Longrightarrow> \<exists>x \<in> set xs. fails x = Some e"
  by (induction xs) (auto split: option.splits)

lemma run_ops_fails: "\<exists>x \<in> set xs. fails x \<noteq> None \<Longrightarrow> \<exists>e. run_ops fails xs = Inl e"
  by (induction xs) (auto split: option.splits)

lemma run_ops_Inr: "\<forall>x \<in> set xs. fails x = None \<Longrightarrow> run_ops fails xs = Inr ()"
  by (induction xs) auto

text \<open>
  Claim C4 says that \<^verbatim>\<open>save_index\<close> writes to a temporary location and moves the
  result into place, so that a crash in the middle never corrupts a persisted index
  that was valid. The disk holds a valid index: \<^verbatim>\<open>load_index\<close> succeeds on it. A
  rebuilt store is saved over it and the process stops after the third operation, when
  \<open>metadata.pkl\<close> has been opened for writing and nothing has been dumped into it. On
  what is left \<^verbatim>\<open>load_index\<close> fails. No operation of the save is a rename.
\<close>

theorem save_index_interrupted_counterexample:
  "load_index (disk_storage persisted_disk) empty_store [''vector_db''] = Inr (True, loaded_store) \<and>
   load_index
     (disk_storage (apply_ops (take 3 (save_index_ops list_faiss rebuilt_store [''vector_db''])) persisted_disk))
     empty_store [''vector_db''] = Inr (False, empty_store) \<and>
   filter is_rename (save_index_ops list_faiss rebuilt_store [''vector_db'']) = []"
proof -
  have ops: "take 3 (save_index_ops list_faiss rebuilt_store [''vector_db'']) =
        [Mkdir [], SaveLocal [leadership_doc, empty_doc] [''vector_db'', ''faiss_index''],
         OpenWrite [''vector_db'', ''metadata.pkl'']]"
    by (simp add: save_index_ops_def rebuilt_store_def empty_store_def path_join_def parent_def)
  have b: "load_index
     (disk_storage (apply_ops (take 3 (save_index_ops list_faiss rebuilt_store [''vector_db''])) persisted_disk))
     empty_store [''vector_db''] = Inr (False, empty_store)"
    unfolding ops
    by (simp add: load_index_def Let_def disk_storage_def path_join_def persisted_disk_faiss
          persisted_disk_metadata)
  have c: "filter is_rename (save_index_ops list_faiss rebuilt_store [''vector_db'']) = []"
    by (simp add: save_index_ops_def rebuilt_store_def empty_store_def)
  from load_index_persisted b c show ?thesis by blast
qed

text \<open>
  Claim C4 as amended. \<^verbatim>\<open>save_index\<close> writes in place and in this order: it makes
  the parent directory, saves the index to \<open>faiss_index\<close> under the path, opens
  \<open>metadata.pkl\<close> under the path for writing and dumps the record of
  \<open>embedding_model\<close> and \<open>document_count\<close> into it; there is no temporary location and
  no rename. Without an index it writes nothing and returns. When all four operations
  have been carried out, the storage holds the saved index and its metadata and
  \<^verbatim>\<open>load_index\<close> restores that index. A write failure is raised to the caller:
  \<^verbatim>\<open>save_index\<close> raises the exception of the first of its operations that fails, and
  it returns normally exactly when none of them fails.
\<close>

theorem save_index_writes_in_place:
  "filter is_rename (save_index_ops lib self p) = [] \<and>
   (vector_store self = None \<longrightarrow>
      save_index_ops lib self p = [] \<and> save_index lib io self p = Inr ()) \<and>
   (vector_store self = Some f \<longrightarrow>
      map op_target (save_index_ops lib self p) =
        [parent p, path_join p ''faiss_index'', path_join p ''metadata.pkl'', path_join p ''metadata.pkl''] \<and>
      apply_ops (save_index_ops lib self p) d (path_join p ''faiss_index'') = Some (IndexDir f) \<and>
      apply_ops (save_index_ops lib self p) d (path_join p ''metadata.pkl'') =
        Some (PickleFile (PDict [(''embedding_model'', PStr (embedding_model self)),
                                 (''document_count'', PInt (int (docstore_len lib f)))])) \<and>
      load_index (disk_storage (apply_ops (save_index_ops lib self p) d)) other p =
        Inr (True, other\<lparr>vector_store := Some f\<rparr>)) \<and>
   save_index lib io self p =
     (case find (\<lambda>x. io_fails io x \<noteq> None) (save_index_ops lib self p) of
        None \<Rightarrow> Inr ()
      | Some x \<Rightarrow> (case io_fails io x of None \<Rightarrow> Inr () | Some e \<Rightarrow> Inl e)) \<and>
   ((\<exists>x \<in> set (save_index_ops lib self p). io_fails io x \<noteq> None) \<longrightarrow>
      (\<exists>e. save_index lib io self p = Inl e)) \<and>
   ((\<forall>x \<in> set (save_index_ops lib self p). io_fails io x = None) \<longrightarrow>
      save_index lib io self p = Inr ()) \<and>
   (save_index lib io self p = Inl e \<longrightarrow>
      (\<exists>x \<in> set (save_index_ops lib self p). io_fails io x = Some e))"
proof (intro conjI impI)
  show "filter is_rename (save_index_ops lib self p) = []"
    by (simp add: save_index_ops_def split: option.splits)
next
  assume "vector_store self = None"
  then show "save_index_ops lib self p = []" and "save_index lib io self p = Inr ()"
    by (simp_all add: save_index_def save_index_ops_def)
next
  assume f: "vector_store self = Some f"
  show "map op_target (save_index_ops lib self p) =
        [parent p, path_join p ''faiss_index'', path_join p ''metadata.pkl'', path_join p ''metadata.pkl'']"
    by (simp add: save_index_ops_def f)
  show 1: "apply_ops (save_index_ops lib self p) d (path_join p ''faiss_index'') = Some (IndexDir f)"
    by (simp add: save_index_ops_def f path_join_def)
  show 2: "apply_ops (save_index_ops lib self p) d (path_join p ''metadata.pkl'') =
        Some (PickleFile (PDict [(''embedding_model'', PStr (embedding_model self)),
                                 (''document_count'', PInt (int (docstore_len lib f)))]))"
    by (simp add: save_index_ops_def f)
  show "load_index (disk_storage (apply_ops (save_index_ops lib self p) d)) other p =
        Inr (True, other\<lparr>vector_store := Some f\<rparr>)"
    by (simp add: load_index_def Let_def disk_storage_def 1 2 py_get_def)
next
  show "save_index lib io self p =
     (case find (\<lambda>x. io_fails io x \<noteq> None) (save_index_ops lib self p) of
        None \<Rightarrow> Inr ()
      | Some x \<Rightarrow> (case io_fails io x of None \<Rightarrow> Inr () | Some e \<Rightarrow> Inl e))"
    unfolding save_index_def by (rule run_ops_find)
next
  assume "\<exists>x \<in> set (save_index_ops lib self p). io_fails io x \<noteq> None"
  then show "\<exists>e. save_index lib io self p = Inl e"
    unfolding save_index_def by (rule run_ops_fails)
next
  assume "\<forall>x \<in> set (save_index_ops lib self p). io_fails io x = None"
  then show "save_index lib io self p = Inr ()"
    unfolding save_index_def by (rule run_ops_Inr)
next
  assume "save_index lib io self p = Inl e"
  then show "\<exists>x \<in> set (save_index_ops lib self p). io_fails io x = Some e"
    unfolding save_index_def by (rule run_ops_Inl)
qed

theorem save_index_writes_in_place_witness:
  "vector_store loaded_store = Some [leadership_doc] \<and>
   load_index (disk_storage (apply_ops (save_index_ops list_faiss loaded_store [''vector_db'']) empty_disk))
     empty_store [''vector_db''] = Inr (True, loaded_store) \<and>
   vector_store empty_store = None \<and>
   save_index list_faiss (disk_storage empty_disk) empty_store [''vector_db''] = Inr () \<and>
   save_index list_faiss (disk_storage empty_disk) loaded_store [''vector_db''] = Inr () \<and>
   io_fails full_storage (SaveLocal [leadership_doc] [''vector_db'', ''faiss_index'']) =
     Some (PyException ''No space left on device'') \<and>
   save_index list_faiss full_storage loaded_store [''vector_db''] =
     Inl (PyException ''No space left on device'')"
proof -
  have a: "vector_store loaded_store = Some [leadership_doc]"
    by (simp add: loaded_store_def)
  have b: "vector_store empty_store = None"
    by (simp add: empty_store_def)
  have c: "empty_store\<lparr>vector_store := Some [leadership_doc]\<rparr> = loaded_store"
    by (simp add: loaded_store_def)
  have ops: "save_index_ops list_faiss loaded_store [''vector_db''] =
        [Mkdir [], SaveLocal [leadership_doc] [''vector_db'', ''faiss_index''],
         OpenWrite [''vector_db'', ''metadata.pkl''],
         PickleDump (PDict [(''embedding_model'', PStr ''sentence-transformers/all-MiniLM-L6-v2''),
                            (''document_count'', PInt 1)])
           [''vector_db'', ''metadata.pkl'']]"
    by (simp add: save_index_ops_def loaded_store_def empty_store_def path_join_def parent_def
          list_faiss_def)
  have full: "io_fails full_storage (SaveLocal [leadership_doc] [''vector_db'', ''faiss_index'']) =
                Some (PyException ''No space left on device'')"
    by (simp add: full_storage_def)
  note fact1 = save_index_writes_in_place
      [of list_faiss loaded_store "[''vector_db'']" "disk_storage empty_disk" "[leadership_doc]"
          empty_disk empty_store]
  note fact2 = save_index_writes_in_place
      [of list_faiss empty_store "[''vector_db'']" "disk_storage empty_disk"]
  note fact3 = save_index_writes_in_place
      [of list_faiss loaded_store "[''vector_db'']" full_storage]
  have never: "io_fails (disk_storage empty_disk) x = None" for x
    by (simp add: disk_storage_def)
  have reload: "load_index (disk_storage (apply_ops (save_index_ops list_faiss loaded_store [''vector_db'']) empty_disk))
     empty_store [''vector_db''] = Inr (True, loaded_store)"
    using fact1 [THEN conjunct2, THEN conjunct2, THEN conjunct1] a c by simp
  have unsaved: "save_index list_faiss (disk_storage empty_disk) empty_store [''vector_db''] = Inr ()"
    using fact2 [THEN conjunct2, THEN conjunct1] b by simp
  have ok: "save_index list_faiss (disk_storage empty_disk) loaded_store [''vector_db''] = Inr ()"
    using fact1 [THEN conjunct2, THEN conjunct2, THEN conjunct2, THEN conjunct2, THEN conjunct2,
                 THEN conjunct1]
    by (simp add: never)
  have raised: "save_index list_faiss full_storage loaded_store [''vector_db''] =
                  Inl (PyException ''No space left on device'')"
    using fact3 [THEN conjunct2, THEN conjunct2, THEN conjunct2, THEN conjunct1]
    by (simp add: ops full_storage_def disk_storage_def)
  from a reload b unsaved ok full raised show ?thesis by simp
qed

section \<open>Answering a question\<close>

lemma remdups_snoc: "remdups (ys @ [x]) = remdups (filter (\<lambda>y. y \<noteq> x) ys) @ [x]"
  by (induction ys) auto

lemma sources_loop_eq:
  "sources_loop docs acc =
     acc @ rev (remdups (rev (filter (\<lambda>x. x \<notin> set acc) (map source_info docs))))"
proof (induction docs arbitrary: acc)
  case Nil
  show ?case by simp
next
  case (Cons d docs)
  show ?case
  proof (cases "source_info d \<in> set acc")
    case True
    then show ?thesis by (simp add: Cons.IH)
  next
    case False
    have "filter (\<lambda>x. x \<notin> set (acc @ [source_info d])) (map source_info docs) =
          filter (\<lambda>x. x \<noteq> source_info d) (filter (\<lambda>x. x \<notin> set acc) (map source_info docs))"
      by (auto intro: filter_cong)
    moreover have "rev (remdups (rev (source_info d # ys))) =
                   source_info d # rev (remdups (rev (filter (\<lambda>x. x \<noteq> source_info d) ys)))" for ys
      by (simp add: remdups_snoc rev_filter)
    ultimately show ?thesis
      using False by (simp add: Cons.IH)
  qed
qed

lemma sources_loop_first_occurrences:
  "sources_loop docs [] = rev (remdups (rev (map source_info docs)))"
  by (simp add: sources_loop_eq)

text \<open>
  Claim C10 says that on any internal failure \<^verbatim>\<open>answer_question\<close> returns its four
  keys with empty sources and a context count of 0. The orchestrator holds an index
  with one chunk and its chat model raises on every call. The failure is caught in
  \<^verbatim>\<open>generate_answer\<close>, which returns an error text as the answer, and the dictionary
  names the retrieved chunk as a source with a context count of 1.
\<close>

theorem answer_question_llm_failure_counterexample:
  "answer_question demo_env failing_llm_rag ''What is leadership?'' 4 =
     Inr [(''answer'', PStr ''Error generating answer: rate limit''),
          (''sources'', PList [PDict [(''filename'', PStr ''leadership.txt''),
                                      (''type'', PStr ''TXT''),
                                      (''chunk_id'', PInt 0)]]),
          (''context_count'', PInt 1),
          (''question'', PStr ''What is leadership?'')]"
  by (simp add: answer_question_def try_except_def retrieve_context_def
        similarity_search_def generate_answer_def demo_env_def failing_llm_rag_def loaded_rag_def
        empty_rag_def loaded_store_def empty_store_def list_faiss_def leadership_doc_def
        source_info_def dict_get_def)

text \<open>
  Claim C10 as amended. For every question and every \<open>retrieve_k\<close>,
  \<^verbatim>\<open>answer_question\<close> returns and does not raise, and the dictionary it returns has
  exactly the keys \<open>answer\<close>, \<open>sources\<close>, \<open>context_count\<close> and \<open>question\<close>, in this
  order. The retrieved chunks are those of the search, and none when there is no index
  or the search raises. \<open>sources\<close> lists, without duplicates and in the order of their
  first occurrence, the records of \<open>filename\<close>, \<open>type\<close> and \<open>chunk_id\<close> taken from the
  metadata of the retrieved chunks, with \<open>Unknown\<close>, \<open>Unknown\<close> and 0 for a missing
  entry; \<open>context_count\<close> is the number of retrieved chunks and \<open>question\<close> is the
  question. A failure inside is absorbed before the dictionary is built: a failed
  search gives empty sources and a context count of 0, and a chat model that is not
  configured or that raises only changes the answer, which is then an error text,
  while sources and context count still describe the retrieved chunks.
\<close>

theorem answer_question_result:
  "(let docs =
          (case vector_store (store self) of
             None \<Rightarrow> []
           | Some f \<Rightarrow>
               (case faiss_similarity_search (env_faiss env) f question k of
                  Inl e \<Rightarrow> []
                | Inr found \<Rightarrow> found));
        filename_of = (\<lambda>doc. case map_of (metadata doc) ''filename'' of
                              None \<Rightarrow> PStr ''Unknown'' | Some v \<Rightarrow> v);
        records =
          map (\<lambda>doc. PDict [(''filename'', filename_of doc),
                            (''type'', case map_of (metadata doc) ''type'' of
                                         None \<Rightarrow> PStr ''Unknown'' | Some v \<Rightarrow> v),
                            (''chunk_id'', case map_of (metadata doc) ''chunk_id'' of
                                             None \<Rightarrow> PInt 0 | Some v \<Rightarrow> v)])
              docs;
        answer =
          (case llm self of
             None \<Rightarrow>
               ''Error: OpenAI API key not configured. Please set OPENAI_API_KEY in your environment.''
           | Some call \<Rightarrow>
               (case call
                       (join_str [CHR 0x0A, CHR 0x0A]
                          (map (\<lambda>doc. ''Source: '' @ env_str env (filename_of doc) @
                                       [CHR 0x0A] @ page_content doc) docs))
                       question of
                  Inl e \<Rightarrow> ''Error generating answer: '' @ exn_str e
                | Inr reply \<Rightarrow> reply))
    in retrieve_context env self question k = Inr docs \<and>
       answer_question env self question k =
         Inr [(''answer'', PStr answer),
              (''sources'', PList (rev (remdups (rev records)))),
              (''context_count'', PInt (int (length docs))),
              (''question'', PStr question)])"
proof -
  have src: "source_info =
     (\<lambda>doc. PDict [(''filename'', case map_of (metadata doc) ''filename'' of
                                    None \<Rightarrow> PStr ''Unknown'' | Some v \<Rightarrow> v),
                    (''type'', case map_of (metadata doc) ''type'' of
                                 None \<Rightarrow> PStr ''Unknown'' | Some v \<Rightarrow> v),
                    (''chunk_id'', case map_of (metadata doc) ''chunk_id'' of
                                     None \<Rightarrow> PInt 0 | Some v \<Rightarrow> v)])"
    by (rule ext) (simp add: source_info_def dict_get_def)
  show ?thesis
    unfolding Let_def src [symmetric]
    by (simp add: answer_question_def try_except_def retrieve_context_def similarity_search_def
          generate_answer_def sources_loop_first_occurrences dict_get_def Let_def
          split: option.splits sum.splits)
qed

theorem answer_question_result_witness:
  "answer_question demo_env loaded_rag ''What is leadership?'' 4 =
     Inr [(''answer'', PStr ''Error: OpenAI API key not configured. Please set OPENAI_API_KEY in your environment.''),
          (''sources'', PList [PDict [(''filename'', PStr ''leadership.txt''), (''type'', PStr ''TXT''), (''chunk_id'', PInt 0)]]),
          (''context_count'', PInt 1),
          (''question'', PStr ''What is leadership?'')] \<and>
   answer_question demo_env empty_rag ''What is leadership?'' 4 =
     Inr [(''answer'', PStr ''Error: OpenAI API key not configured. Please set OPENAI_API_KEY in your environment.''),
          (''sources'', PList []),
          (''context_count'', PInt 0),
          (''question'', PStr ''What is leadership?'')]"
proof -
  have 1: "answer_question demo_env loaded_rag ''What is leadership?'' 4 =
     Inr [(''answer'', PStr ''Error: OpenAI API key not configured. Please set OPENAI_API_KEY in your environment.''),
          (''sources'', PList [PDict [(''filename'', PStr ''leadership.txt''), (''type'', PStr ''TXT''), (''chunk_id'', PInt 0)]]),
          (''context_count'', PInt 1),
          (''question'', PStr ''What is leadership?'')]"
    using answer_question_result
            [where self = loaded_rag and env = demo_env and question = "''What is leadership?''" and k = 4]
    by (simp add: Let_def demo_env_def loaded_rag_def empty_rag_def loaded_store_def
          empty_store_def list_faiss_def leadership_doc_def)
  have 2: "answer_question demo_env empty_rag ''What is leadership?'' 4 =
     Inr [(''answer'', PStr ''Error: OpenAI API key not configured. Please set OPENAI_API_KEY in your environment.''),
          (''sources'', PList []),
          (''context_count'', PInt 0),
          (''question'', PStr ''What is leadership?'')]"
    using answer_question_result
            [where self = empty_rag and env = demo_env and question = "''What is leadership?''" and k = 4]
    by (simp add: Let_def demo_env_def empty_rag_def empty_store_def)
  from 1 2 show ?thesis by blast
qed

end
